theory Spec2Isabelle
  imports Complex_Main "HOL-Library.Sublist"
begin

section \<open>JavaScript values used by the dashboard\<close>

text \<open>
  A JavaScript number field of an activity is either a number, \<open>NaN\<close>, or not set at
  all. XP values come from \<open>parseInt\<close>, so the numbers are integers. Arithmetic that the
  source performs in floating point (\<open>earned / base * 100\<close>, \<open>Math.round\<close>) is carried out
  over the rationals here.
\<close>

datatype jsnum = Undefined | NaN | Num int

text \<open>\<open>a + b\<close> on numbers: \<open>undefined\<close> converts to \<open>NaN\<close>, and \<open>NaN\<close> is absorbing.\<close>

fun jsAdd :: "jsnum \<Rightarrow> jsnum \<Rightarrow> jsnum" where
  "jsAdd (Num a) (Num b) = Num (a + b)"
| "jsAdd _ _ = NaN"

text \<open>\<open>a > b\<close> and \<open>a <= b\<close>: every comparison with \<open>NaN\<close> or \<open>undefined\<close> is false.\<close>

fun jsGt :: "jsnum \<Rightarrow> jsnum \<Rightarrow> bool" where
  "jsGt (Num a) (Num b) = (a > b)"
| "jsGt _ _ = False"

fun jsLe :: "jsnum \<Rightarrow> jsnum \<Rightarrow> bool" where
  "jsLe (Num a) (Num b) = (a \<le> b)"
| "jsLe _ _ = False"

text \<open>\<open>x || d\<close> on a number: \<open>0\<close>, \<open>NaN\<close> and \<open>undefined\<close> are falsy.\<close>

fun jsOr :: "jsnum \<Rightarrow> int \<Rightarrow> int" where
  "jsOr (Num a) d = (if a = 0 then d else a)"
| "jsOr _ d = d"

text \<open>
  \<open>String.prototype.toLowerCase\<close> on the ASCII letters; all other characters are kept.
  \<open>String.prototype.includes\<close> is the search for a contiguous substring.
\<close>

definition toLowerChar :: "char \<Rightarrow> char" where
  "toLowerChar c =
     (case map_of (zip ''ABCDEFGHIJKLMNOPQRSTUVWXYZ'' ''abcdefghijklmnopqrstuvwxyz'') c of
        Some l \<Rightarrow> l
      | None \<Rightarrow> c)"

definition toLowerCase :: "string \<Rightarrow> string" where
  "toLowerCase s = map toLowerChar s"

fun str_includes :: "string \<Rightarrow> string \<Rightarrow> bool" where
  "str_includes [] sub = (sub = [])"
| "str_includes (c # cs) sub = (prefix sub (c # cs) \<or> str_includes cs sub)"

text \<open>Decimal rendering of a natural number, as template literals do.\<close>

fun showNat :: "nat \<Rightarrow> string" where
  "showNat n =
     (if n < 10 then [''0123456789'' ! n]
      else showNat (n div 10) @ [''0123456789'' ! (n mod 10)])"

section \<open>Dates\<close>

text \<open>
  A \<open>Date\<close> is its time value: milliseconds since 1970-01-01T00:00 UTC. The host's time
  zone is the parameter \<open>tz\<close>, the offset of local time from UTC in milliseconds (local =
  UTC + \<open>tz\<close>, so \<open>tz = - 60000 * getTimezoneOffset()\<close>), taken as constant. A local
  calendar day is represented by its day number, the days since 1970-01-01; the texts
  \<open>YYYY-MM-DD\<close> (\<open>toLocalDateString\<close>) and \<open>Mon Jan 05 2026\<close> (\<open>toDateString\<close>) are
  one-to-one renderings of that day, and the model uses the day number as the key.
\<close>

type_synonym dateKey = int

definition msPerDay :: int where
  "msPerDay = 86400000"

definition localDay :: "int \<Rightarrow> int \<Rightarrow> int" where
  "localDay tz t = (t + tz) div msPerDay"

text \<open>\<open>ChartHelpers.toLocalDateString(date)\<close> and \<open>date.toDateString()\<close>.\<close>

definition toLocalDateString :: "int \<Rightarrow> int \<Rightarrow> dateKey" where
  "toLocalDateString tz t = localDay tz t"

definition toDateString :: "int \<Rightarrow> int \<Rightarrow> dateKey" where
  "toDateString tz t = localDay tz t"

text \<open>\<open>new Date("YYYY-MM-DD")\<close>: a date-only ISO text is read as midnight UTC of that day.\<close>

definition newDateFromKey :: "dateKey \<Rightarrow> int" where
  "newDateFromKey k = k * msPerDay"

text \<open>\<open>date.setHours(0, 0, 0, 0)\<close>: midnight, local time, of the local day of \<open>t\<close>.\<close>

definition setHoursZero :: "int \<Rightarrow> int \<Rightarrow> int" where
  "setHoursZero tz t = localDay tz t * msPerDay - tz"

text \<open>\<open>date.setDate(date.getDate() + n)\<close>: the same local clock time \<open>n\<close> days later.\<close>

definition addDays :: "int \<Rightarrow> int \<Rightarrow> int" where
  "addDays t n = t + n * msPerDay"

definition getDay :: "int \<Rightarrow> int \<Rightarrow> nat" where
  "getDay tz t = nat ((localDay tz t + 4) mod 7)"

definition getHours :: "int \<Rightarrow> int \<Rightarrow> nat" where
  "getHours tz t = nat (((t + tz) mod msPerDay) div 3600000)"

text \<open>
  The proleptic Gregorian calendar of \<open>Date\<close>: day number to (year, month, day) and back,
  months counted from 1.
\<close>

definition civilFromDays :: "int \<Rightarrow> int \<times> int \<times> int" where
  "civilFromDays days =
     (let z = days + 719468;
          era = z div 146097;
          doe = z mod 146097;
          yoe = (doe - doe div 1460 + doe div 36524 - doe div 146096) div 365;
          doy = doe - (365 * yoe + yoe div 4 - yoe div 100);
          mp = (5 * doy + 2) div 153;
          d = doy - (153 * mp + 2) div 5 + 1;
          m = (if mp < 10 then mp + 3 else mp - 9);
          y = yoe + era * 400
      in (if m \<le> 2 then y + 1 else y, m, d))"

definition daysFromCivil :: "int \<Rightarrow> int \<Rightarrow> int \<Rightarrow> int" where
  "daysFromCivil y0 m d =
     (let y = (if m \<le> 2 then y0 - 1 else y0);
          era = y div 400;
          yoe = y mod 400;
          doy = (153 * (if m > 2 then m - 3 else m + 9) + 2) div 5 + d - 1;
          doe = yoe * 365 + yoe div 4 - yoe div 100 + doy
      in era * 146097 + doe - 719468)"

definition getMonth :: "int \<Rightarrow> int \<Rightarrow> nat" where
  "getMonth tz t = (case civilFromDays (localDay tz t) of (y, m, d) \<Rightarrow> nat (m - 1))"

definition getDate :: "int \<Rightarrow> int \<Rightarrow> nat" where
  "getDate tz t = (case civilFromDays (localDay tz t) of (y, m, d) \<Rightarrow> nat d)"

text \<open>
  The text of a day key as \<open>toLocalDateString\<close> builds it: the year, and month and day
  padded to two digits (\<open>String(n).padStart(2, '0')\<close>).
\<close>

definition pad2 :: "nat \<Rightarrow> string" where
  "pad2 n = (if n < 10 then CHR ''0'' # showNat n else showNat n)"

definition dateKeyText :: "dateKey \<Rightarrow> string" where
  "dateKeyText k =
     (case civilFromDays k of
        (y, m, d) \<Rightarrow> showNat (nat y) @ ''-'' @ pad2 (nat m) @ ''-'' @ pad2 (nat d))"

section \<open>Activities\<close>

text \<open>
  The activity objects that the parser builds and the statistics read. \<open>taskName\<close> is
  read by the statistics code (\<open>activity.taskName || ''\<close>); the parser never sets it.
\<close>

record activity =
  date :: string
  timestamp :: int
  type :: string
  course :: "string option"
  title :: string
  taskName :: "string option"
  earned :: int
  maxXP :: jsnum
  base :: jsnum
  percentage :: int
  isSuccess :: bool
  rawText :: string

section \<open>StatisticsCalculator\<close>

text \<open>
  \<open>const isQuiz = taskName.toLowerCase().includes('quiz')\<close> with
  \<open>taskName = activity.taskName || ''\<close>, and
  \<open>isDiagnostic = !isQuiz && (type === 'diagnostic' || type === 'assessment' ||
  type === 'supplemental diagnostic')\<close> with \<open>type = activity.type.toLowerCase()\<close>.
  The source repeats these lines in \<open>calculateSuccessMetrics\<close> (twice),
  \<open>calculateBestPerformance\<close> and \<open>ChartHelpers.groupActivitiesByDay\<close>.
\<close>

definition isQuiz :: "activity \<Rightarrow> bool" where
  "isQuiz a =
     str_includes (toLowerCase (case taskName a of None \<Rightarrow> [] | Some n \<Rightarrow> n)) ''quiz''"

definition isDiagnostic :: "activity \<Rightarrow> bool" where
  "isDiagnostic a =
     (let t = toLowerCase (type a)
      in \<not> isQuiz a \<and>
         (t = ''diagnostic'' \<or> t = ''assessment'' \<or> t = ''supplemental diagnostic''))"

definition calculateTotalXP :: "activity list \<Rightarrow> int" where
  "calculateTotalXP data = foldl (\<lambda>sum a. sum + earned a) 0 data"

record activityCounts =
  diagnostics :: nat
  lessons :: nat
  reviews :: nat
  multisteps :: nat
  quizzes :: nat

definition zeroCounts :: activityCounts where
  "zeroCounts = \<lparr>diagnostics = 0, lessons = 0, reviews = 0, multisteps = 0, quizzes = 0\<rparr>"

text \<open>The body of the \<open>forEach\<close> of \<open>calculateActivityCounts\<close>.\<close>

definition countActivity :: "activityCounts \<Rightarrow> activity \<Rightarrow> activityCounts" where
  "countActivity counts a =
     (let t = toLowerCase (type a) in
      if isQuiz a then counts\<lparr>quizzes := quizzes counts + 1\<rparr>
      else if t = ''diagnostic'' \<or> t = ''assessment'' \<or> t = ''supplemental diagnostic''
        then counts\<lparr>diagnostics := diagnostics counts + 1\<rparr>
      else if t = ''lesson'' then counts\<lparr>lessons := lessons counts + 1\<rparr>
      else if t = ''review'' then counts\<lparr>reviews := reviews counts + 1\<rparr>
      else if t = ''multistep'' then counts\<lparr>multisteps := multisteps counts + 1\<rparr>
      else if t = ''quiz'' then counts\<lparr>quizzes := quizzes counts + 1\<rparr>
      else counts)"

definition calculateActivityCounts :: "activity list \<Rightarrow> activityCounts" where
  "calculateActivityCounts data = foldl countActivity zeroCounts data"

record successMetrics =
  perfectCount :: nat
  passCount :: nat
  failCount :: nat
  successRate :: rat
  totalEarned :: jsnum
  totalPossible :: jsnum

text \<open>The first \<open>forEach\<close> of \<open>calculateSuccessMetrics\<close>: perfect, pass and fail counters.\<close>

definition successStep :: "nat \<times> nat \<times> nat \<Rightarrow> activity \<Rightarrow> nat \<times> nat \<times> nat" where
  "successStep acc a =
     (case acc of (perfect, pass, fail) \<Rightarrow>
        if isDiagnostic a then
          (if earned a > 0 then (perfect, pass + 1, fail) else (perfect, pass, fail + 1))
        else if jsGt (Num (earned a)) (base a) then (perfect + 1, pass, fail)
        else if earned a > 0 \<and> jsLe (Num (earned a)) (base a) then (perfect, pass + 1, fail)
        else (perfect, pass, fail + 1))"

text \<open>The second \<open>forEach\<close>: \<open>totalEarned\<close> and \<open>totalPossible\<close>.\<close>

definition attainmentStep :: "int \<times> jsnum \<Rightarrow> activity \<Rightarrow> int \<times> jsnum" where
  "attainmentStep acc a =
     (case acc of (te, tp) \<Rightarrow>
        if isDiagnostic a then (te + earned a, jsAdd tp (Num (earned a)))
        else (te + earned a, jsAdd tp (base a)))"

text \<open>\<open>totalPossible > 0 ? (totalEarned / totalPossible * 100) : 0\<close>.\<close>

definition xpAttainmentRate :: "int \<Rightarrow> jsnum \<Rightarrow> rat" where
  "xpAttainmentRate te tp =
     (case tp of Num p \<Rightarrow> if p > 0 then of_int te / of_int p * 100 else 0 | _ \<Rightarrow> 0)"

definition calculateSuccessMetrics :: "activity list \<Rightarrow> successMetrics" where
  "calculateSuccessMetrics data =
     (case foldl successStep (0, 0, 0) data of (perfect, pass, fail) \<Rightarrow>
      case foldl attainmentStep (0, Num 0) data of (te, tp) \<Rightarrow>
        \<lparr>perfectCount = perfect, passCount = pass, failCount = fail,
         successRate = of_int (round (xpAttainmentRate te tp * 10)) / 10,
         totalEarned = Num te, totalPossible = tp\<rparr>)"

text \<open>
  A JavaScript object used as a dictionary keeps its keys in insertion order. The
  idiom \<open>if (!obj[k]) obj[k] = init; ... obj[k] ...\<close> followed by updates of \<open>obj[k]\<close>:
\<close>

fun objUpdate :: "'k \<Rightarrow> 'v \<Rightarrow> ('v \<Rightarrow> 'v) \<Rightarrow> ('k \<times> 'v) list \<Rightarrow> ('k \<times> 'v) list" where
  "objUpdate k init f [] = [(k, f init)]"
| "objUpdate k init f ((k', v) # rest) =
     (if k = k' then (k', f v) # rest else (k', v) # objUpdate k init f rest)"

record dailyStat =
  ds_date :: int
  ds_xp :: int
  ds_earned :: int
  ds_base :: jsnum
  ds_count :: nat
  ds_activities :: "activity list"

definition calculateDailyStats :: "int \<Rightarrow> activity list \<Rightarrow> (dateKey \<times> dailyStat) list" where
  "calculateDailyStats tz data =
     foldl (\<lambda>dailyStats a.
        objUpdate (toDateString tz (timestamp a))
          \<lparr>ds_date = timestamp a, ds_xp = 0, ds_earned = 0, ds_base = Num 0, ds_count = 0,
           ds_activities = []\<rparr>
          (\<lambda>d. d\<lparr>ds_xp := ds_xp d + earned a, ds_earned := ds_earned d + earned a,
                 ds_base := jsAdd (ds_base d) (base a), ds_count := ds_count d + 1,
                 ds_activities := ds_activities d @ [a]\<rparr>)
          dailyStats)
       [] data"

definition calculateAvgXPPerDay :: "int \<Rightarrow> activity list \<Rightarrow> int" where
  "calculateAvgXPPerDay tz data =
     (let uniqueDays = length (calculateDailyStats tz data);
          totalXP = calculateTotalXP data
      in if uniqueDays > 0 then round (of_int totalXP / of_nat uniqueDays :: rat) else 0)"

record weekdayResult =
  weekdayStats_arr :: "(int \<times> nat) list"
  bestWeekday :: string
  bestWeekdayAvg :: int

definition weekdayNames :: "string list" where
  "weekdayNames =
     [''Sunday'', ''Monday'', ''Tuesday'', ''Wednesday'', ''Thursday'', ''Friday'', ''Saturday'']"

text \<open>Entries \<open>{xp, count}\<close> of \<open>weekdayStats\<close> and \<open>hourlyStats\<close> are pairs.\<close>

definition bumpSlot :: "nat \<Rightarrow> int \<Rightarrow> (int \<times> nat) list \<Rightarrow> (int \<times> nat) list" where
  "bumpSlot i xp slots = slots[i := (fst (slots ! i) + xp, snd (slots ! i) + 1)]"

definition calculateWeekdayStats :: "int \<Rightarrow> activity list \<Rightarrow> weekdayResult" where
  "calculateWeekdayStats tz data =
     (let stats = foldl (\<lambda>w a. bumpSlot (getDay tz (timestamp a)) (earned a) w)
                    (replicate 7 (0, 0)) data;
          best = foldl (\<lambda>(bestName, bestAvg) (index, (xp, cnt)).
                    let avg = (if cnt > 0 then of_int xp / of_nat cnt else (0 :: rat))
                    in if avg > bestAvg then (weekdayNames ! index, avg) else (bestName, bestAvg))
                  ([], 0) (zip [0 ..< 7] stats)
      in \<lparr>weekdayStats_arr = stats, bestWeekday = fst best, bestWeekdayAvg = round (snd best)\<rparr>)"

record bestPerformance =
  bestDayXP :: int
  bestDayDate :: "dateKey option"
  bestAccuracy :: rat
  bestAccuracyDate :: "dateKey option"

definition calculateBestPerformance :: "int \<Rightarrow> activity list \<Rightarrow> bestPerformance" where
  "calculateBestPerformance tz data =
     (let best = foldl (\<lambda>(bx, bd, ba, bad) (dateKey, stats).
            let (bx', bd') = (if ds_xp stats > bx then (ds_xp stats, Some dateKey) else (bx, bd));
                nonDiag = filter (\<lambda>a. \<not> isDiagnostic a) (ds_activities stats);
                nonDiagnosticEarned = foldl (\<lambda>s a. s + earned a) 0 nonDiag;
                nonDiagnosticBase = foldl (\<lambda>s a. jsAdd s (base a)) (Num 0) nonDiag;
                accuracy = xpAttainmentRate nonDiagnosticEarned nonDiagnosticBase
            in if accuracy > ba \<and> jsGt nonDiagnosticBase (Num 0)
               then (bx', bd', accuracy, Some dateKey) else (bx', bd', ba, bad))
          (0, None, 0, None) (calculateDailyStats tz data)
      in case best of (bx, bd, ba, bad) \<Rightarrow>
         \<lparr>bestDayXP = bx, bestDayDate = bd,
          bestAccuracy = of_int (round (ba * 10)) / 10, bestAccuracyDate = bad\<rparr>)"

record dayPoint =
  dp_date :: int
  dp_label :: string
  dp_xp :: int
  dp_count :: nat

definition getLast14Days :: "int \<Rightarrow> int \<Rightarrow> activity list \<Rightarrow> dayPoint list" where
  "getLast14Days tz today data =
     (let dailyStats = calculateDailyStats tz data in
      map (\<lambda>i. let d = addDays today (- int i);
                    entry = map_of dailyStats (toDateString tz d)
                in \<lparr>dp_date = d,
                    dp_label = showNat (getMonth tz d + 1) @ ''/'' @ showNat (getDate tz d),
                    dp_xp = (case entry of Some s \<Rightarrow> ds_xp s | None \<Rightarrow> 0),
                    dp_count = (case entry of Some s \<Rightarrow> ds_count s | None \<Rightarrow> 0)\<rparr>)
          (rev [0 ..< 14]))"

record timeAnalysis =
  hourlyStats :: "(int \<times> nat) list"
  mostProductiveHour :: string
  maxHourlyXP :: int

definition formatHour :: "nat \<Rightarrow> string" where
  "formatHour hour =
     (let ampm = (if hour \<ge> 12 then ''PM'' else ''AM'');
          displayHour = (if hour = 0 then 12 else if hour > 12 then hour - 12 else hour)
      in showNat displayHour @ '':00 '' @ ampm)"

definition calculateTimeAnalysis :: "int \<Rightarrow> activity list \<Rightarrow> timeAnalysis" where
  "calculateTimeAnalysis tz data =
     (let stats = foldl (\<lambda>h a. bumpSlot (getHours tz (timestamp a)) (earned a) h)
                    (replicate 24 (0, 0)) data;
          best = foldl (\<lambda>(bestHour, maxXP) (hour, (xp, cnt)).
                    if xp > maxXP then (hour, xp) else (bestHour, maxXP))
                  (0, 0) (zip [0 ..< 24] stats)
      in \<lparr>hourlyStats = stats, mostProductiveHour = formatHour (fst best),
          maxHourlyXP = snd best\<rparr>)"

record stats =
  totalXP :: int
  totalActivities :: nat
  activityCounts :: activityCounts
  successMetrics :: successMetrics
  avgXPPerDay :: int
  dailyStats :: "(dateKey \<times> dailyStat) list"
  weekdayStats :: weekdayResult
  bestPerformance :: bestPerformance
  last14Days :: "dayPoint list"
  timeAnalysis :: timeAnalysis

definition getEmptyStats :: stats where
  "getEmptyStats =
     \<lparr>totalXP = 0, totalActivities = 0,
      activityCounts =
        \<lparr>diagnostics = 0, lessons = 0, reviews = 0, multisteps = 0, quizzes = 0\<rparr>,
      successMetrics =
        \<lparr>perfectCount = 0, passCount = 0, failCount = 0, successRate = 0,
         totalEarned = Undefined, totalPossible = Undefined\<rparr>,
      avgXPPerDay = 0,
      dailyStats = [],
      weekdayStats =
        \<lparr>weekdayStats_arr = replicate 7 (0, 0), bestWeekday = [], bestWeekdayAvg = 0\<rparr>,
      bestPerformance =
        \<lparr>bestDayXP = 0, bestDayDate = None, bestAccuracy = 0, bestAccuracyDate = None\<rparr>,
      last14Days = [],
      timeAnalysis =
        \<lparr>hourlyStats = replicate 24 (0, 0), mostProductiveHour = [], maxHourlyXP = 0\<rparr>\<rparr>"

text \<open>
  \<open>calculateStats()\<close> on \<open>this.data\<close>; \<open>today\<close> is the value of \<open>new Date()\<close> read by
  \<open>getLast14Days\<close>.
\<close>

definition calculateStats :: "int \<Rightarrow> int \<Rightarrow> activity list \<Rightarrow> stats" where
  "calculateStats tz today data =
     (if length data = 0 then getEmptyStats
      else \<lparr>totalXP = calculateTotalXP data,
            totalActivities = length data,
            activityCounts = calculateActivityCounts data,
            successMetrics = calculateSuccessMetrics data,
            avgXPPerDay = calculateAvgXPPerDay tz data,
            dailyStats = calculateDailyStats tz data,
            weekdayStats = calculateWeekdayStats tz data,
            bestPerformance = calculateBestPerformance tz data,
            last14Days = getLast14Days tz today data,
            timeAnalysis = calculateTimeAnalysis tz data\<rparr>)"

section \<open>ChartHelpers\<close>

record dayGroup =
  d_date :: dateKey
  d_xp :: int
  d_count :: nat
  d_totalPossible :: int
  d_totalEarned :: int
  d_courses :: "string list"
  courseTransition :: bool
  transitionFrom :: "string option"
  transitionTo :: "string option"

text \<open>\<open>courses.add(activity.course)\<close> on a \<open>Set\<close>, guarded by \<open>if (activity.course)\<close>.\<close>

definition addCourse :: "string option \<Rightarrow> string list \<Rightarrow> string list" where
  "addCourse c cs =
     (case c of
        None \<Rightarrow> cs
      | Some n \<Rightarrow> if n = [] \<or> n \<in> set cs then cs else cs @ [n])"

text \<open>The body of the first \<open>forEach\<close> of \<open>groupActivitiesByDay\<close>.\<close>

definition groupStep :: "int \<Rightarrow> (dateKey \<times> dayGroup) list \<Rightarrow> activity \<Rightarrow> (dateKey \<times> dayGroup) list" where
  "groupStep tz dailyGroups a =
     (let dateKey = toLocalDateString tz (timestamp a);
          earnedXP = earned a;
          possibleXP = (if isDiagnostic a then earned a else jsOr (base a) 10)
      in objUpdate dateKey
           \<lparr>d_date = dateKey, d_xp = 0, d_count = 0, d_totalPossible = 0, d_totalEarned = 0,
            d_courses = [], courseTransition = False, transitionFrom = None,
            transitionTo = None\<rparr>
           (\<lambda>g. g\<lparr>d_xp := d_xp g + earned a, d_count := d_count g + 1,
                  d_courses := addCourse (course a) (d_courses g),
                  d_totalPossible := d_totalPossible g + possibleXP,
                  d_totalEarned := d_totalEarned g + earnedXP\<rparr>)
           dailyGroups)"

text \<open>The second \<open>forEach\<close>: the walk over the sorted days that detects course transitions.\<close>

fun markTransitions :: "string option \<Rightarrow> dayGroup list \<Rightarrow> dayGroup list" where
  "markTransitions previousCourse [] = []"
| "markTransitions previousCourse (day # rest) =
     (case d_courses day of
        [] \<Rightarrow> day\<lparr>courseTransition := False\<rparr> # markTransitions previousCourse rest
      | currentCourse # _ \<Rightarrow>
          (if (case previousCourse of None \<Rightarrow> False | Some p \<Rightarrow> p \<noteq> [] \<and> currentCourse \<noteq> p)
           then day\<lparr>courseTransition := True, transitionFrom := previousCourse,
                    transitionTo := Some currentCourse\<rparr>
           else day\<lparr>courseTransition := False\<rparr>)
          # markTransitions (Some currentCourse) rest)"

definition groupActivitiesByDay :: "int \<Rightarrow> activity list \<Rightarrow> dayGroup list" where
  "groupActivitiesByDay tz activities =
     (let dailyGroups = foldl (groupStep tz) [] activities;
          sortedDays = sort_key (\<lambda>g. newDateFromKey (d_date g)) (map snd dailyGroups)
      in markTransitions None sortedDays)"

datatype label = DateLabel dateKey | TextLabel string

record timeSeries =
  labels :: "label list"
  values_list :: "int list"
  transitions :: "(dateKey \<times> string option \<times> string option) list option"

text \<open>\<open>lookup[day.date] = v\<close> on an object, and \<open>lookup[dateKey] || 0\<close>.\<close>

fun objSet :: "'k \<Rightarrow> 'v \<Rightarrow> ('k \<times> 'v) list \<Rightarrow> ('k \<times> 'v) list" where
  "objSet k v [] = [(k, v)]"
| "objSet k v ((k', v') # rest) =
     (if k = k' then (k', v) # rest else (k', v') # objSet k v rest)"

definition lookupOrZero :: "(dateKey \<times> int) list \<Rightarrow> dateKey \<Rightarrow> int" where
  "lookupOrZero lookup k = (case map_of lookup k of Some v \<Rightarrow> v | None \<Rightarrow> 0)"

definition dailyXPLookup :: "dayGroup list \<Rightarrow> (dateKey \<times> int) list" where
  "dailyXPLookup dailyData = foldl (\<lambda>l day. objSet (d_date day) (d_xp day) l) [] dailyData"

definition dailyCountLookup :: "dayGroup list \<Rightarrow> (dateKey \<times> int) list" where
  "dailyCountLookup dailyData =
     foldl (\<lambda>l day. objSet (d_date day) (int (d_count day)) l) [] dailyData"

definition transitionLookup :: "dayGroup list \<Rightarrow> (dateKey \<times> string option \<times> string option) list" where
  "transitionLookup dailyData =
     foldl (\<lambda>l day. if courseTransition day
                     then objSet (d_date day) (transitionFrom day, transitionTo day) l else l)
       [] dailyData"

text \<open>
  The \<open>while (currentDate <= lastDate)\<close> loop of \<open>getCumulativeXPData\<close> and
  \<open>getCumulativeActivitiesData\<close>; \<open>dayValue\<close> is the lookup of the day's XP or count.
\<close>

function cumulativeLoop :: "int \<Rightarrow> (dateKey \<Rightarrow> int) \<Rightarrow> int \<Rightarrow> int \<Rightarrow> int \<Rightarrow> (dateKey \<times> int) list" where
  "cumulativeLoop tz dayValue lastDate currentDate cumulative =
     (if currentDate \<le> lastDate then
        (let dateKey = toLocalDateString tz currentDate;
             cumulative' = cumulative + dayValue dateKey
         in (dateKey, cumulative') # cumulativeLoop tz dayValue lastDate (addDays currentDate 1) cumulative')
      else [])"
  by pat_completeness auto
termination
  by (relation "measure (\<lambda>(tz, dayValue, lastDate, currentDate, cumulative). nat (lastDate - currentDate + 1))")
     (auto simp: addDays_def msPerDay_def)

declare cumulativeLoop.simps [simp del]

text \<open>
  \<open>stats.calculator.data\<close> is \<open>None\<close> when \<open>stats.calculator\<close> or its \<open>data\<close> is missing.
  \<open>dailyData[0]\<close> and \<open>dailyData[dailyData.length - 1]\<close> are read only when there is an
  activity, and then \<open>dailyData\<close> is not empty (lemma \<open>groupActivitiesByDay_not_Nil\<close>).
\<close>

definition cumulativeSeries :: "int \<Rightarrow> dayGroup list \<Rightarrow> (dateKey \<times> int) list \<Rightarrow> timeSeries" where
  "cumulativeSeries tz dailyData lookup =
     (let firstDate = setHoursZero tz (newDateFromKey (d_date (hd dailyData)));
          lastDate = setHoursZero tz (newDateFromKey (d_date (last dailyData)));
          data = cumulativeLoop tz (lookupOrZero lookup) lastDate firstDate 0
      in \<lparr>labels = map (\<lambda>d. DateLabel (fst d)) data, values_list = map snd data,
          transitions = Some (transitionLookup dailyData)\<rparr>)"

definition sample :: "string list \<Rightarrow> int list \<Rightarrow> timeSeries" where
  "sample ls vs = \<lparr>labels = map TextLabel ls, values_list = vs, transitions = None\<rparr>"

definition getCumulativeXPData :: "int \<Rightarrow> activity list option \<Rightarrow> timeSeries" where
  "getCumulativeXPData tz calculatorData =
     (case calculatorData of
        None \<Rightarrow> sample [''Day 1'', ''Day 2'', ''Day 3'', ''Day 4'', ''Day 5''] [12, 28, 41, 67, 85]
      | Some d \<Rightarrow>
          (let activities = sort_key timestamp d in
           if length activities = 0 then sample [''Day 1'', ''Day 2'', ''Day 3''] [5, 12, 20]
           else (let dailyData = groupActivitiesByDay tz activities
                 in cumulativeSeries tz dailyData (dailyXPLookup dailyData))))"

definition getCumulativeActivitiesData :: "int \<Rightarrow> activity list option \<Rightarrow> timeSeries" where
  "getCumulativeActivitiesData tz calculatorData =
     (case calculatorData of
        None \<Rightarrow> sample [''Day 1'', ''Day 2'', ''Day 3'', ''Day 4''] [2, 5, 7, 12]
      | Some d \<Rightarrow>
          (let activities = sort_key timestamp d in
           if length activities = 0 then sample [''Day 1'', ''Day 2''] [1, 2]
           else (let dailyData = groupActivitiesByDay tz activities
                 in cumulativeSeries tz dailyData (dailyCountLookup dailyData))))"

text \<open>
  \<open>dailyData.slice(Math.max(0, i - 6), i + 1)\<close>: the window of at most seven days that
  ends at day \<open>i\<close>.
\<close>

definition window :: "dayGroup list \<Rightarrow> nat \<Rightarrow> dayGroup list" where
  "window dailyData i =
     (let windowStart = i - 6 in take (i + 1 - windowStart) (drop windowStart dailyData))"

definition rollingSeries :: "(dayGroup list \<Rightarrow> int) \<Rightarrow> dayGroup list \<Rightarrow> timeSeries" where
  "rollingSeries f dailyData =
     (let data = map (\<lambda>i. (d_date (dailyData ! i), f (window dailyData i)))
                   [0 ..< length dailyData]
      in \<lparr>labels = map (\<lambda>d. DateLabel (fst d)) data, values_list = map snd data,
          transitions = Some (transitionLookup dailyData)\<rparr>)"

definition rollingAvg :: "dayGroup list \<Rightarrow> int" where
  "rollingAvg w =
     (let totalXP = foldl (\<lambda>sum day. sum + d_xp day) 0 w
      in round (of_int totalXP / of_nat (length w) :: rat))"

definition rollingAttainment :: "dayGroup list \<Rightarrow> int" where
  "rollingAttainment w =
     (let totalEarned = foldl (\<lambda>sum day. sum + d_totalEarned day) 0 w;
          totalPossible = foldl (\<lambda>sum day. sum + d_totalPossible day) 0 w
      in if totalPossible > 0
         then round (of_int totalEarned / of_int totalPossible * 100 :: rat) else 0)"

definition getAvgXPOverTimeData :: "int \<Rightarrow> activity list option \<Rightarrow> timeSeries" where
  "getAvgXPOverTimeData tz calculatorData =
     (case calculatorData of
        None \<Rightarrow> sample [''Week 1'', ''Week 2'', ''Week 3''] [108, 112, 115]
      | Some d \<Rightarrow>
          (let activities = sort_key timestamp d in
           if length activities = 0 then sample [''Week 1'', ''Week 2''] [110, 112]
           else rollingSeries rollingAvg (groupActivitiesByDay tz activities)))"

definition getSuccessRateOverTimeData :: "int \<Rightarrow> activity list option \<Rightarrow> timeSeries" where
  "getSuccessRateOverTimeData tz calculatorData =
     (case calculatorData of
        None \<Rightarrow> sample [''Month 1'', ''Month 2'', ''Month 3''] [87, 86, 88]
      | Some d \<Rightarrow>
          (let activities = sort_key timestamp d in
           if length activities = 0 then sample [''Month 1'', ''Month 2''] [70, 80]
           else rollingSeries rollingAttainment (groupActivitiesByDay tz activities)))"

text \<open>
  The week views: \<open>for (let i = 6; i >= 0; i--)\<close> over the seven days that end today;
  \<open>today\<close> is the value of \<open>new Date()\<close>. The cumulative variants carry \<open>cumulative\<close>
  through the loop.
\<close>

definition weekDays :: "nat list" where
  "weekDays = [6, 5, 4, 3, 2, 1, 0]"

definition weekKey :: "int \<Rightarrow> int \<Rightarrow> nat \<Rightarrow> dateKey" where
  "weekKey tz today i = toLocalDateString tz (addDays today (- int i))"

fun weekCumulativeLoop :: "int \<Rightarrow> int \<Rightarrow> (dateKey \<Rightarrow> int) \<Rightarrow> int \<Rightarrow> nat list \<Rightarrow> (dateKey \<times> int) list" where
  "weekCumulativeLoop tz today dayValue cumulative [] = []"
| "weekCumulativeLoop tz today dayValue cumulative (i # rest) =
     (let dateKey = weekKey tz today i;
          cumulative' = cumulative + dayValue dateKey
      in (dateKey, cumulative') # weekCumulativeLoop tz today dayValue cumulative' rest)"

definition weekSeries :: "(dateKey \<times> int) list \<Rightarrow> timeSeries" where
  "weekSeries data =
     \<lparr>labels = map (\<lambda>d. DateLabel (fst d)) data, values_list = map snd data, transitions = None\<rparr>"

definition weekView :: "int \<Rightarrow> activity list option \<Rightarrow> (dayGroup list \<Rightarrow> (dateKey \<times> int) list) \<Rightarrow> timeSeries" where
  "weekView tz calculatorData build =
     (case calculatorData of
        None \<Rightarrow> sample [] []
      | Some d \<Rightarrow>
          (let activities = sort_key timestamp d in
           if length activities = 0 then sample [] []
           else weekSeries (build (groupActivitiesByDay tz activities))))"

definition getDailyXPData :: "int \<Rightarrow> int \<Rightarrow> activity list option \<Rightarrow> timeSeries" where
  "getDailyXPData tz today calculatorData =
     weekView tz calculatorData (\<lambda>dailyData.
       map (\<lambda>i. (weekKey tz today i, lookupOrZero (dailyXPLookup dailyData) (weekKey tz today i)))
         weekDays)"

definition getWeeklyCumulativeXPData :: "int \<Rightarrow> int \<Rightarrow> activity list option \<Rightarrow> timeSeries" where
  "getWeeklyCumulativeXPData tz today calculatorData =
     weekView tz calculatorData (\<lambda>dailyData.
       weekCumulativeLoop tz today (lookupOrZero (dailyXPLookup dailyData)) 0 weekDays)"

definition getDailyActivitiesData :: "int \<Rightarrow> int \<Rightarrow> activity list option \<Rightarrow> timeSeries" where
  "getDailyActivitiesData tz today calculatorData =
     weekView tz calculatorData (\<lambda>dailyData.
       map (\<lambda>i. (weekKey tz today i, lookupOrZero (dailyCountLookup dailyData) (weekKey tz today i)))
         weekDays)"

definition getWeeklyCumulativeActivitiesData :: "int \<Rightarrow> int \<Rightarrow> activity list option \<Rightarrow> timeSeries" where
  "getWeeklyCumulativeActivitiesData tz today calculatorData =
     weekView tz calculatorData (\<lambda>dailyData.
       weekCumulativeLoop tz today (lookupOrZero (dailyCountLookup dailyData)) 0 weekDays)"

text \<open>
  \<open>getDailyAttainmentData\<close>: the lookup has an entry only for a day with
  \<open>totalPossible > 0\<close>; a day without an entry is shown as 100.
\<close>

definition dailyAttainmentLookup :: "dayGroup list \<Rightarrow> (dateKey \<times> int) list" where
  "dailyAttainmentLookup dailyData =
     foldl (\<lambda>l day.
        if d_totalPossible day > 0
        then objSet (d_date day)
               (round (of_int (d_totalEarned day) / of_int (d_totalPossible day) * 100 :: rat)) l
        else l)
       [] dailyData"

definition getDailyAttainmentData :: "int \<Rightarrow> int \<Rightarrow> activity list option \<Rightarrow> timeSeries" where
  "getDailyAttainmentData tz today calculatorData =
     weekView tz calculatorData (\<lambda>dailyData.
       map (\<lambda>i. (weekKey tz today i,
                 (case map_of (dailyAttainmentLookup dailyData) (weekKey tz today i) of
                    Some v \<Rightarrow> v
                  | None \<Rightarrow> 100)))
         weekDays)"

text \<open>\<open>daysBetween(date1, date2)\<close>: \<open>Math.round(Math.abs((date1 - date2) / oneDay))\<close>.\<close>

definition daysBetween :: "int \<Rightarrow> int \<Rightarrow> int" where
  "daysBetween date1 date2 = round (\<bar>of_int (date1 - date2) / of_int msPerDay\<bar> :: rat)"

section \<open>Regular expressions\<close>

text \<open>
  The parser is written with regular expressions. The constructs it uses are literals,
  the classes \<open>\d\<close>, \<open>\w\<close>, \<open>\s\<close>, \<open>.\<close> and \<open>[A-Za-z]\<close>, sequence, alternation, \<open>?\<close>,
  the greedy and the lazy star of a class, and capturing groups. Text is a list of
  8-bit characters; of the white space of \<open>\s\<close> the characters below 256 are modelled.
\<close>

datatype cclass = Digit | WordChar | Space | AnyChar | Letter

definition isDigit :: "char \<Rightarrow> bool" where
  "isDigit c = (c \<in> set ''0123456789'')"

definition isLetter :: "char \<Rightarrow> bool" where
  "isLetter c = (c \<in> set ''ABCDEFGHIJKLMNOPQRSTUVWXYZabcdefghijklmnopqrstuvwxyz'')"

definition isSpace :: "char \<Rightarrow> bool" where
  "isSpace c = (c \<in> set [CHR 0x20, CHR 0x09, CHR 0x0A, CHR 0x0B, CHR 0x0C, CHR 0x0D, CHR 0xA0])"

definition isLineTerminator :: "char \<Rightarrow> bool" where
  "isLineTerminator c = (c = CHR 0x0A \<or> c = CHR 0x0D)"

fun inClass :: "cclass \<Rightarrow> char \<Rightarrow> bool" where
  "inClass Digit c = isDigit c"
| "inClass WordChar c = (isLetter c \<or> isDigit c \<or> c = CHR ''_'')"
| "inClass Space c = isSpace c"
| "inClass AnyChar c = (\<not> isLineTerminator c)"
| "inClass Letter c = isLetter c"

datatype regex =
    Lit string
  | Cls cclass
  | Seq regex regex
  | Alt regex regex
  | Opt regex
  | Star cclass
  | LazyStar cclass
  | Group nat regex

type_synonym captures = "(nat \<times> string) list"

text \<open>
  Backtracking matching at the start of a text: all the ways the expression can match,
  as pairs of the remaining text and the captures, in the order in which a backtracking
  matcher tries them. The first one is the match that \<open>exec\<close> reports at that position.
\<close>

fun rmatch :: "regex \<Rightarrow> string \<times> captures \<Rightarrow> (string \<times> captures) list" where
  "rmatch (Lit l) (s, c) = (if prefix l s then [(drop (length l) s, c)] else [])"
| "rmatch (Cls k) ([], c) = []"
| "rmatch (Cls k) (x # xs, c) = (if inClass k x then [(xs, c)] else [])"
| "rmatch (Seq a b) st = concat (map (rmatch b) (rmatch a st))"
| "rmatch (Alt a b) st = rmatch a st @ rmatch b st"
| "rmatch (Opt a) st = rmatch a st @ [st]"
| "rmatch (Star k) ([], c) = [([], c)]"
| "rmatch (Star k) (x # xs, c) =
     (if inClass k x then rmatch (Star k) (xs, c) @ [(x # xs, c)] else [(x # xs, c)])"
| "rmatch (LazyStar k) ([], c) = [([], c)]"
| "rmatch (LazyStar k) (x # xs, c) =
     (x # xs, c) # (if inClass k x then rmatch (LazyStar k) (xs, c) else [])"
| "rmatch (Group i a) (s, c) =
     map (\<lambda>(s', c'). (s', (i, take (length s - length s') s) # c')) (rmatch a (s, c))"

text \<open>Abbreviations for writing the expressions of the source.\<close>

fun seqs :: "regex list \<Rightarrow> regex" where
  "seqs [] = Lit []"
| "seqs [r] = r"
| "seqs (r # rs) = Seq r (seqs rs)"

fun alts :: "string list \<Rightarrow> regex" where
  "alts [] = Lit []"
| "alts [l] = Lit l"
| "alts (l # ls) = Alt (Lit l) (alts ls)"

definition oneOrMore :: "cclass \<Rightarrow> regex" where
  "oneOrMore k = Seq (Cls k) (Star k)"

text \<open>
  One result of \<open>exec\<close>: \<open>match.index\<close>, \<open>match[0]\<close> and the captured groups.
\<close>

record rxmatch =
  index :: nat
  matched :: string
  groups :: captures

definition grp :: "rxmatch \<Rightarrow> nat \<Rightarrow> string" where
  "grp m i = (case map_of (groups m) i of Some g \<Rightarrow> g | None \<Rightarrow> [])"

text \<open>
  The loop \<open>while ((match = pattern.exec(text)) !== null)\<close> of a global expression: the
  matches from left to right, each search starting where the previous match ended;
  \<open>pos\<close> is the index of \<open>s\<close> in the whole text. After an empty match \<open>lastIndex\<close> would
  not advance and the loop would not end: that is the result \<open>None\<close>.
\<close>

function execAll :: "regex \<Rightarrow> nat \<Rightarrow> string \<Rightarrow> rxmatch list option" where
  "execAll r pos s =
     (case rmatch r (s, []) of
        [] \<Rightarrow> (case s of [] \<Rightarrow> Some [] | x # rest \<Rightarrow> execAll r (pos + 1) rest)
      | (rest, caps) # others \<Rightarrow>
          (let n = length s - length rest in
           if n = 0 then None
           else map_option (\<lambda>ms. \<lparr>index = pos, matched = take n s, groups = caps\<rparr> # ms)
                  (execAll r (pos + n) (drop n s))))"
  by pat_completeness auto
termination
  by (relation "measure (\<lambda>(r, pos, s). length s)") auto

declare execAll.simps [simp del]

text \<open>The first match of an expression anywhere in a text (a search without \<open>g\<close>).\<close>

fun searchFirst :: "regex \<Rightarrow> string \<Rightarrow> string \<Rightarrow> (string \<times> string \<times> captures) option" where
  "searchFirst r skipped s =
     (case rmatch r (s, []) of
        (rest, caps) # others \<Rightarrow> Some (skipped, rest, caps)
      | [] \<Rightarrow> (case s of [] \<Rightarrow> None | x # xs \<Rightarrow> searchFirst r (skipped @ [x]) xs))"

declare searchFirst.simps [simp del]

text \<open>\<open>String.prototype.substring\<close>, \<open>trim\<close> and \<open>parseInt\<close> (decimal or \<open>0x\<close> text).\<close>

definition substring :: "string \<Rightarrow> nat \<Rightarrow> nat \<Rightarrow> string" where
  "substring s a b = drop (min a b) (take (max a b) s)"

definition trim :: "string \<Rightarrow> string" where
  "trim s = rev (dropWhile isSpace (rev (dropWhile isSpace s)))"

definition digitVal :: "char \<Rightarrow> nat" where
  "digitVal c =
     (case map_of (zip ''0123456789abcdefABCDEF''
                       [0, 1, 2, 3, 4, 5, 6, 7, 8, 9, 10, 11, 12, 13, 14, 15, 10, 11, 12, 13, 14, 15]) c of
        Some v \<Rightarrow> v
      | None \<Rightarrow> 0)"

definition isHexDigit :: "char \<Rightarrow> bool" where
  "isHexDigit c = (c \<in> set ''0123456789abcdefABCDEF'')"

definition digitsValue :: "nat \<Rightarrow> string \<Rightarrow> nat" where
  "digitsValue radix ds = foldl (\<lambda>n c. radix * n + digitVal c) 0 ds"

definition parseInt :: "string \<Rightarrow> jsnum" where
  "parseInt s =
     (let t = dropWhile isSpace s;
          negative = (take 1 t = ''-'');
          u = (if take 1 t = ''-'' \<or> take 1 t = ''+'' then drop 1 t else t);
          hex = (take 2 u = ''0x'' \<or> take 2 u = ''0X'');
          ds = (if hex then takeWhile isHexDigit (drop 2 u) else takeWhile isDigit u);
          n = int (digitsValue (if hex then 16 else 10) ds)
      in if ds = [] then NaN else Num (if negative then - n else n))"

section \<open>PDFDataParser\<close>

text \<open>
  \<open>/(Mon|Tue|Wed|Thu|Fri|Sat|Sun),\s+[A-Za-z]{3}\s+\d{1,2}(?:st|nd|rd|th)?,\s+\d{4}/g\<close>
\<close>

definition datePattern :: regex where
  "datePattern =
     seqs [Group 1 (alts [''Mon'', ''Tue'', ''Wed'', ''Thu'', ''Fri'', ''Sat'', ''Sun'']),
           Lit '','', oneOrMore Space,
           Cls Letter, Cls Letter, Cls Letter, oneOrMore Space,
           Cls Digit, Opt (Cls Digit), Opt (alts [''st'', ''nd'', ''rd'', ''th'']),
           Lit '','', oneOrMore Space,
           Cls Digit, Cls Digit, Cls Digit, Cls Digit]"

text \<open>
  \<open>/(Mathematical Foundations \w+)\s+(Placement|Supplemental)\s+(\d+)\s*\/\s*XP/g\<close>
\<close>

definition diagnosticRegex :: regex where
  "diagnosticRegex =
     seqs [Group 1 (Seq (Lit ''Mathematical Foundations '') (oneOrMore WordChar)),
           oneOrMore Space,
           Group 2 (alts [''Placement'', ''Supplemental'']),
           oneOrMore Space,
           Group 3 (oneOrMore Digit),
           Star Space, Lit ''/'', Star Space, Lit ''XP'']"

text \<open>
  \<open>/(Mathematical Foundations \w+)\s+(Lesson|Review|Quiz|Diagnostic|Multistep)\s+(.*?)\s+(\d+)\s*\/\s*(\d+)\s*XP/g\<close>
\<close>

definition activityRegex :: regex where
  "activityRegex =
     seqs [Group 1 (Seq (Lit ''Mathematical Foundations '') (oneOrMore WordChar)),
           oneOrMore Space,
           Group 2 (alts [''Lesson'', ''Review'', ''Quiz'', ''Diagnostic'', ''Multistep'']),
           oneOrMore Space,
           Group 3 (LazyStar AnyChar),
           oneOrMore Space,
           Group 4 (oneOrMore Digit),
           Star Space, Lit ''/'', Star Space,
           Group 5 (oneOrMore Digit),
           Star Space, Lit ''XP'']"

text \<open>
  \<open>parseDate\<close>: \<open>dateStr.replace(/^(Mon|Tue|Wed|Thu|Fri|Sat|Sun),?\s*/, '')\<close>, then
  \<open>.replace(/(\d+)(st|nd|rd|th)/, '$1')\<close>, then \<open>new Date(cleanDateStr)\<close>, with the
  current date when the result is not a valid date.
\<close>

definition dayNamePrefix :: regex where
  "dayNamePrefix =
     seqs [Group 1 (alts [''Mon'', ''Tue'', ''Wed'', ''Thu'', ''Fri'', ''Sat'', ''Sun'']),
           Opt (Lit '',''), Star Space]"

definition ordinalSuffix :: regex where
  "ordinalSuffix = Seq (Group 1 (oneOrMore Digit)) (Group 2 (alts [''st'', ''nd'', ''rd'', ''th'']))"

definition removeDayName :: "string \<Rightarrow> string" where
  "removeDayName s =
     (case rmatch dayNamePrefix (s, []) of [] \<Rightarrow> s | (rest, caps) # others \<Rightarrow> rest)"

definition removeOrdinal :: "string \<Rightarrow> string" where
  "removeOrdinal s =
     (case searchFirst ordinalSuffix [] s of
        None \<Rightarrow> s
      | Some (skipped, rest, caps) \<Rightarrow>
          skipped @ (case map_of caps 1 of Some g \<Rightarrow> g | None \<Rightarrow> []) @ rest)"

text \<open>
  \<open>new Date(text)\<close> for a text that is not in the ISO format is read by the host's own
  date parser. The dates the parser passes have the shape \<open>Jan 5, 2026\<close>: an English
  month name of three letters (in any case), a day of the month and a year of four
  digits. The hosts read it as midnight, local time, of that day, a day past the end of
  the month rolling over into the next month, and give an invalid date for any other
  month name or a day outside 1 to 31; a text of another shape is taken as invalid here.
  The result is the day number, or \<open>None\<close> for an invalid date.
\<close>

definition monthDayYear :: regex where
  "monthDayYear =
     seqs [Group 1 (seqs [Cls Letter, Cls Letter, Cls Letter]), oneOrMore Space,
           Group 2 (Seq (Cls Digit) (Opt (Cls Digit))), Lit '','', oneOrMore Space,
           Group 3 (seqs [Cls Digit, Cls Digit, Cls Digit, Cls Digit])]"

definition monthNumber :: "string \<Rightarrow> int option" where
  "monthNumber name =
     map_of (zip [''jan'', ''feb'', ''mar'', ''apr'', ''may'', ''jun'',
                  ''jul'', ''aug'', ''sep'', ''oct'', ''nov'', ''dec'']
                 [1, 2, 3, 4, 5, 6, 7, 8, 9, 10, 11, 12])
       (toLowerCase name)"

definition hostDateParse :: "string \<Rightarrow> int option" where
  "hostDateParse s =
     (case filter (\<lambda>(rest, caps). rest = []) (rmatch monthDayYear (s, [])) of
        [] \<Rightarrow> None
      | (rest, caps) # others \<Rightarrow>
          (let field = (\<lambda>i. case map_of caps i of Some g \<Rightarrow> g | None \<Rightarrow> []);
               d = int (digitsValue 10 (field 2));
               y = int (digitsValue 10 (field 3))
           in case monthNumber (field 1) of
                None \<Rightarrow> None
              | Some m \<Rightarrow> if 1 \<le> d \<and> d \<le> 31 then Some (daysFromCivil y m 1 + d - 1) else None))"

definition localMidnight :: "int \<Rightarrow> int \<Rightarrow> int" where
  "localMidnight tz day = day * msPerDay - tz"

definition parseDate :: "int \<Rightarrow> int \<Rightarrow> string \<Rightarrow> int" where
  "parseDate tz now dateStr =
     (let cleanDateStr = removeOrdinal (removeDayName dateStr)
      in case hostDateParse cleanDateStr of
           None \<Rightarrow> now
         | Some day \<Rightarrow> localMidnight tz day)"

text \<open>\<open>normalizeActivityType(type)\<close>; \<open>None\<close> is a missing argument.\<close>

definition normalizeActivityType :: "string option \<Rightarrow> string" where
  "normalizeActivityType type_arg =
     (case type_arg of
        None \<Rightarrow> ''lesson''
      | Some t \<Rightarrow>
          if t = [] then ''lesson''
          else (let normalizedType = trim (toLowerCase t) in
                if normalizedType = ''lesson'' \<or> normalizedType = ''lessons'' then ''lesson''
                else if normalizedType = ''review'' \<or> normalizedType = ''reviews'' then ''review''
                else if normalizedType = ''quiz'' \<or> normalizedType = ''quizzes'' then ''quiz''
                else if normalizedType = ''diagnostic'' \<or> normalizedType = ''diagnostics'' \<or>
                        normalizedType = ''placement'' \<or> normalizedType = ''supplemental''
                  then ''diagnostic''
                else if normalizedType = ''multistep'' \<or> normalizedType = ''multisteps'' \<or>
                        normalizedType = ''practice''
                  then ''multistep''
                else ''lesson''))"

text \<open>
  The object built for one match of \<open>diagnosticRegex\<close>, with
  \<open>earnedXP = parseInt(xpValue) || 63\<close>.
\<close>

definition diagnosticActivity :: "int \<Rightarrow> int \<Rightarrow> string \<Rightarrow> rxmatch \<Rightarrow> activity" where
  "diagnosticActivity tz now dateStr m =
     (let earnedXP = jsOr (parseInt (grp m 3)) 63;
          parsedDate = parseDate tz now dateStr
      in \<lparr>date = dateStr, timestamp = parsedDate, type = ''diagnostic'',
          course = Some (trim (grp m 1)), title = grp m 2 @ '' Activity'', taskName = None,
          earned = earnedXP, maxXP = Num earnedXP, base = Num earnedXP,
          percentage = 100, isSuccess = True, rawText = matched m\<rparr>)"

text \<open>
  The object built for one match of \<open>activityRegex\<close>. \<open>parseDate\<close> never returns an
  invalid date, so the test \<open>isNaN(parsedDate.getTime())\<close> is always false.
\<close>

definition gradedActivity :: "int \<Rightarrow> int \<Rightarrow> string \<Rightarrow> rxmatch \<Rightarrow> activity" where
  "gradedActivity tz now dateStr m =
     (let parsedDate = parseDate tz now dateStr;
          earnedXP = jsOr (parseInt (grp m 4)) 0;
          baseXP = jsOr (parseInt (grp m 5)) (jsOr (parseInt (grp m 4)) 0);
          pct = (if baseXP > 0 then round (of_int earnedXP / of_int baseXP * 100 :: rat) else 100)
      in \<lparr>date = dateStr, timestamp = parsedDate,
          type = normalizeActivityType (Some (grp m 2)),
          course = Some (trim (grp m 1)), title = trim (grp m 3), taskName = None,
          earned = earnedXP, maxXP = Num baseXP, base = Num baseXP,
          percentage = pct, isSuccess = (pct \<ge> 70), rawText = matched m\<rparr>)"

text \<open>
  The two passes of \<open>parseActivitySection\<close>: the loop over \<open>diagnosticRegex\<close> that fills
  \<open>diagnosticActivities\<close>, and the loop over \<open>activityRegex\<close> that fills \<open>activities\<close>. The
  diagnostic activities are appended after the others.
\<close>

definition diagnosticPass :: "int \<Rightarrow> int \<Rightarrow> string \<Rightarrow> string \<Rightarrow> activity list option" where
  "diagnosticPass tz now dateStr sectionText =
     map_option (map (diagnosticActivity tz now dateStr)) (execAll diagnosticRegex 0 sectionText)"

definition gradedPass :: "int \<Rightarrow> int \<Rightarrow> string \<Rightarrow> string \<Rightarrow> activity list option" where
  "gradedPass tz now dateStr sectionText =
     map_option (map (gradedActivity tz now dateStr)) (execAll activityRegex 0 sectionText)"

definition parseActivitySection :: "int \<Rightarrow> int \<Rightarrow> string \<Rightarrow> string \<Rightarrow> activity list option" where
  "parseActivitySection tz now dateStr sectionText =
     (case diagnosticPass tz now dateStr sectionText of
        None \<Rightarrow> None
      | Some diagnosticActivities \<Rightarrow>
          (case gradedPass tz now dateStr sectionText of
             None \<Rightarrow> None
           | Some activities \<Rightarrow> Some (activities @ diagnosticActivities)))"

record dateMatch =
  dm_date :: string
  startIndex :: nat
  endIndex :: nat

text \<open>The loop over the date sections of \<open>parseActivities\<close>.\<close>

fun parseSections :: "int \<Rightarrow> int \<Rightarrow> string \<Rightarrow> dateMatch list \<Rightarrow> activity list option" where
  "parseSections tz now text [] = Some []"
| "parseSections tz now text (currentDate # later) =
     (let sectionStart = endIndex currentDate;
          sectionEnd = (case later of [] \<Rightarrow> length text | nextDate # _ \<Rightarrow> startIndex nextDate);
          sectionText = substring text sectionStart sectionEnd
      in if length sectionText > 10 then
           (case parseActivitySection tz now (dm_date currentDate) sectionText of
              None \<Rightarrow> None
            | Some sectionActivities \<Rightarrow>
                map_option (\<lambda>acts. sectionActivities @ acts) (parseSections tz now text later))
         else parseSections tz now text later)"

text \<open>
  \<open>parseActivities(text)\<close>. Of the final filter, \<open>activity.earned !== undefined\<close> and
  \<open>activity.timestamp instanceof Date\<close> hold for every object built above; \<open>activity.type\<close>
  is truthy when it is not the empty text. \<open>None\<close> is a call that does not return.
\<close>

definition parseActivities :: "int \<Rightarrow> int \<Rightarrow> string \<Rightarrow> activity list option" where
  "parseActivities tz now text =
     (case execAll datePattern 0 text of
        None \<Rightarrow> None
      | Some ms \<Rightarrow>
          (let dateMatches = map (\<lambda>m. \<lparr>dm_date = matched m, startIndex = index m,
                                        endIndex = index m + length (matched m)\<rparr>) ms
           in map_option (filter (\<lambda>a. type a \<noteq> [])) (parseSections tz now text dateMatches)))"

section \<open>Properties stated about the series and the matcher\<close>

text \<open>
  A series is aligned when \<open>labels\<close> and \<open>values\<close> have the same length, so that position
  \<open>i\<close> of one belongs to position \<open>i\<close> of the other. Its \<open>transitions\<close>, when it has any,
  are only on transition days when every entry is the date of a day of \<open>dailyData\<close> that
  is flagged \<open>courseTransition\<close>, with that day's \<open>transitionFrom\<close> and \<open>transitionTo\<close>.
\<close>

definition alignedSeries :: "timeSeries \<Rightarrow> bool" where
  "alignedSeries s = (length (labels s) = length (values_list s))"

definition transitionsOnlyOn :: "dayGroup list \<Rightarrow> timeSeries \<Rightarrow> bool" where
  "transitionsOnlyOn dailyData s =
     (case transitions s of
        None \<Rightarrow> True
      | Some m \<Rightarrow>
          list_all (\<lambda>(k, v). list_ex (\<lambda>day. d_date day = k \<and> courseTransition day \<and>
                                           v = (transitionFrom day, transitionTo day)) dailyData) m)"

text \<open>
  A day that is flagged as a course transition carries the two courses: \<open>transitionTo\<close>
  is the first course of the day and \<open>transitionFrom\<close> a different course.
\<close>

definition properTransition :: "dayGroup \<Rightarrow> bool" where
  "properTransition day =
     (if courseTransition day then
        (case (transitionFrom day, transitionTo day, d_courses day) of
           (Some p, Some c, first # others) \<Rightarrow> p \<noteq> c \<and> c = first
         | _ \<Rightarrow> False)
      else True)"

text \<open>The least number of characters that a match of an expression consumes.\<close>

fun minLen :: "regex \<Rightarrow> nat" where
  "minLen (Lit l) = length l"
| "minLen (Cls k) = 1"
| "minLen (Seq a b) = minLen a + minLen b"
| "minLen (Alt a b) = min (minLen a) (minLen b)"
| "minLen (Opt a) = 0"
| "minLen (Star k) = 0"
| "minLen (LazyStar k) = 0"
| "minLen (Group i a) = minLen a"

text \<open>An expression without a capturing group.\<close>

fun groupFree :: "regex \<Rightarrow> bool" where
  "groupFree (Lit l) = True"
| "groupFree (Cls k) = True"
| "groupFree (Seq a b) = (groupFree a \<and> groupFree b)"
| "groupFree (Alt a b) = (groupFree a \<and> groupFree b)"
| "groupFree (Opt a) = groupFree a"
| "groupFree (Star k) = True"
| "groupFree (LazyStar k) = True"
| "groupFree (Group i a) = False"

text \<open>The five activity types of the parser.\<close>

definition activityTypes :: "string list" where
  "activityTypes = [''diagnostic'', ''lesson'', ''review'', ''quiz'', ''multistep'']"

text \<open>The raw type names that \<open>normalizeActivityType\<close> knows.\<close>

definition knownTypeNames :: "string list" where
  "knownTypeNames =
     [''lesson'', ''lessons'', ''review'', ''reviews'', ''quiz'', ''quizzes'',
      ''diagnostic'', ''diagnostics'', ''placement'', ''supplemental'',
      ''multistep'', ''multisteps'', ''practice'']"

section \<open>Sample inputs\<close>

text \<open>
  The time value 1767589200000 is 2026-01-05 00:00 in a zone five hours behind UTC
  (\<open>tz = -18000000\<close>), and 1767762000000 is 2026-01-07 00:00 there; day number 20458 is
  2026-01-05.
\<close>

definition quizByTitle :: activity where
  "quizByTitle =
     \<lparr>date = ''Mon, Jan 5th, 2026'', timestamp = 1767589200000, type = ''Assessment'',
      course = Some ''Mathematical Foundations I'', title = ''Unit 2 Quiz'', taskName = None,
      earned = 8, maxXP = Num 10, base = Num 10, percentage = 80, isSuccess = True,
      rawText = []\<rparr>"

definition lessonZero :: activity where
  "lessonZero =
     \<lparr>date = ''Mon, Jan 5th, 2026'', timestamp = 1767589200000, type = ''lesson'',
      course = Some ''Mathematical Foundations I'', title = ''Warm Up'', taskName = None,
      earned = 0, maxXP = Num 0, base = Num 0, percentage = 100, isSuccess = True,
      rawText = ''Mathematical Foundations I Lesson Warm Up 0 / 0 XP''\<rparr>"

definition lessonEight :: activity where
  "lessonEight =
     \<lparr>date = ''Mon, Jan 5th, 2026'', timestamp = 1767589200000, type = ''lesson'',
      course = Some ''Mathematical Foundations I'', title = ''Intro to Limits'', taskName = None,
      earned = 8, maxXP = Num 10, base = Num 10, percentage = 80, isSuccess = True,
      rawText = ''Mathematical Foundations I Lesson Intro to Limits 8 / 10 XP''\<rparr>"

definition reviewLater :: activity where
  "reviewLater =
     \<lparr>date = ''Wed, Jan 7th, 2026'', timestamp = 1767762000000, type = ''review'',
      course = Some ''Mathematical Foundations II'', title = ''Chain Rule'', taskName = None,
      earned = 12, maxXP = Num 10, base = Num 10, percentage = 120, isSuccess = True,
      rawText = ''Mathematical Foundations II Review Chain Rule 12 / 10 XP''\<rparr>"

definition scenarioA :: string where
  "scenarioA =
     ''Mon, Jan 5th, 2026 Mathematical Foundations I Lesson Intro to Limits 8 / 10 XP''"

definition scenarioALines :: string where
  "scenarioALines =
     ''Mon, Jan 5th, 2026'' @ [CHR 0x0A] @
     ''Mathematical Foundations I Lesson Intro to Limits 8 / 10 XP''"

definition quizLessonText :: string where
  "quizLessonText =
     ''Mon, Jan 5th, 2026 Mathematical Foundations I Lesson Quiz Warm Up 8 / 10 XP''"

definition placementZero :: string where
  "placementZero = '' Mathematical Foundations III Placement 0 / XP''"

section \<open>Properties of the statistics\<close>

lemma successStep_triple:
  "successStep (p, q, f) a =
     (if isDiagnostic a then (if earned a > 0 then (p, q + 1, f) else (p, q, f + 1))
      else if jsGt (Num (earned a)) (base a) then (p + 1, q, f)
      else if earned a > 0 \<and> jsLe (Num (earned a)) (base a) then (p, q + 1, f)
      else (p, q, f + 1))"
  by (simp add: successStep_def)

lemma jsGt_jsLe: "jsGt x y \<Longrightarrow> \<not> jsLe x y"
  by (cases x; cases y) auto

lemma foldl_successStep:
  "foldl successStep (p, q, f) data =
     (p + length (filter (\<lambda>a. \<not> isDiagnostic a \<and> jsGt (Num (earned a)) (base a)) data),
      q + length (filter (\<lambda>a. (isDiagnostic a \<and> earned a > 0) \<or>
                          (\<not> isDiagnostic a \<and> earned a > 0 \<and> jsLe (Num (earned a)) (base a))) data),
      f + length (filter (\<lambda>a. (isDiagnostic a \<and> earned a \<le> 0) \<or>
                          (\<not> isDiagnostic a \<and> \<not> jsGt (Num (earned a)) (base a) \<and>
                           \<not> (earned a > 0 \<and> jsLe (Num (earned a)) (base a)))) data))"
proof (induction data arbitrary: p q f)
  case Nil
  show ?case by simp
next
  case (Cons a data)
  show ?case
    by (auto simp add: successStep_triple Cons.IH dest: jsGt_jsLe)
qed

lemma three_way_partition:
  "length (filter (\<lambda>a. \<not> isDiagnostic a \<and> jsGt (Num (earned a)) (base a)) data) +
   length (filter (\<lambda>a. (isDiagnostic a \<and> earned a > 0) \<or>
                          (\<not> isDiagnostic a \<and> earned a > 0 \<and> jsLe (Num (earned a)) (base a))) data) +
   length (filter (\<lambda>a. (isDiagnostic a \<and> earned a \<le> 0) \<or>
                          (\<not> isDiagnostic a \<and> \<not> jsGt (Num (earned a)) (base a) \<and>
                           \<not> (earned a > 0 \<and> jsLe (Num (earned a)) (base a)))) data) = length data"
  by (induction data) (auto dest: jsGt_jsLe)

section \<open>Properties of the chart series\<close>

subsection \<open>A list of activities has at least one day\<close>

lemma objUpdate_not_Nil: "objUpdate k init f obj \<noteq> []"
  by (cases obj) (auto split: if_splits)

lemma foldl_groupStep_not_Nil:
  "obj \<noteq> [] \<or> acts \<noteq> [] \<Longrightarrow> foldl (groupStep tz) obj acts \<noteq> []"
proof (induction acts arbitrary: obj)
  case Nil
  then show ?case by simp
next
  case (Cons a acts)
  have "groupStep tz obj a \<noteq> []"
    by (simp add: groupStep_def Let_def objUpdate_not_Nil)
  then show ?case using Cons.IH by simp
qed

lemma length_markTransitions: "length (markTransitions p days) = length days"
  by (induction days arbitrary: p) (auto split: list.splits)

lemma groupActivitiesByDay_not_Nil:
  "acts \<noteq> [] \<Longrightarrow> groupActivitiesByDay tz acts \<noteq> []"
proof -
  assume "acts \<noteq> []"
  then have "foldl (groupStep tz) [] acts \<noteq> []"
    using foldl_groupStep_not_Nil by blast
  then have "length (groupActivitiesByDay tz acts) \<noteq> 0"
    by (simp add: groupActivitiesByDay_def Let_def length_markTransitions)
  then show ?thesis by auto
qed

subsection \<open>Labels and values have the same length\<close>

lemma cumulativeSeries_len:
  "length (labels (cumulativeSeries tz dd l)) = length (values_list (cumulativeSeries tz dd l))"
  by (simp add: cumulativeSeries_def Let_def)

lemma rollingSeries_len:
  "length (labels (rollingSeries f dd)) = length (values_list (rollingSeries f dd))"
  by (simp add: rollingSeries_def Let_def)

lemma weekView_len:
  "length (labels (weekView tz d build)) = length (values_list (weekView tz d build))"
  by (simp add: weekView_def weekSeries_def sample_def Let_def split: option.splits)

lemma getCumulativeXPData_len:
  "length (labels (getCumulativeXPData tz d)) = length (values_list (getCumulativeXPData tz d))"
  by (simp add: getCumulativeXPData_def cumulativeSeries_len sample_def Let_def split: option.splits)

lemma getCumulativeActivitiesData_len:
  "length (labels (getCumulativeActivitiesData tz d)) = length (values_list (getCumulativeActivitiesData tz d))"
  by (simp add: getCumulativeActivitiesData_def cumulativeSeries_len sample_def Let_def split: option.splits)

lemma getAvgXPOverTimeData_len:
  "length (labels (getAvgXPOverTimeData tz d)) = length (values_list (getAvgXPOverTimeData tz d))"
  by (simp add: getAvgXPOverTimeData_def rollingSeries_len sample_def Let_def split: option.splits)

lemma getSuccessRateOverTimeData_len:
  "length (labels (getSuccessRateOverTimeData tz d)) = length (values_list (getSuccessRateOverTimeData tz d))"
  by (simp add: getSuccessRateOverTimeData_def rollingSeries_len sample_def Let_def split: option.splits)

subsection \<open>The entries of the transition lookup\<close>

lemma objSet_set: "(k', v') \<in> set (objSet k v obj) \<Longrightarrow> (k', v') = (k, v) \<or> (k', v') \<in> set obj"
  by (induction obj) (auto split: if_splits)

lemma transitionLookup_fold_sound:
  "(k, v) \<in> set (foldl (\<lambda>l day. if courseTransition day
                     then objSet (d_date day) (transitionFrom day, transitionTo day) l else l) l0 dd)
   \<Longrightarrow> (k, v) \<in> set l0 \<or>
       (\<exists>day \<in> set dd. courseTransition day \<and> d_date day = k \<and> v = (transitionFrom day, transitionTo day))"
proof (induction dd arbitrary: l0)
  case Nil
  then show ?case by simp
next
  case (Cons d dd)
  from Cons.IH [OF Cons.prems [simplified]] show ?case
    by (auto split: if_splits dest!: objSet_set)
qed

lemma transitionLookup_sound:
  "(k, v) \<in> set (transitionLookup dd) \<Longrightarrow>
     \<exists>day \<in> set dd. courseTransition day \<and> d_date day = k \<and> v = (transitionFrom day, transitionTo day)"
  unfolding transitionLookup_def using transitionLookup_fold_sound [of k v "[]" dd] by simp

subsection \<open>Cumulative values do not decrease\<close>

lemma objUpdate_set:
  "(k', v') \<in> set (objUpdate k init f obj) \<Longrightarrow>
     (k', v') \<in> set obj \<or> (k' = k \<and> (v' = f init \<or> (\<exists>v. (k, v) \<in> set obj \<and> v' = f v)))"
  by (induction obj) (auto split: if_splits)

lemma foldl_objSet_sound:
  "(k, v) \<in> set (foldl (\<lambda>l day. objSet (key day) (val day) l) l0 dd) \<Longrightarrow>
     (k, v) \<in> set l0 \<or> (\<exists>day \<in> set dd. key day = k \<and> val day = v)"
proof (induction dd arbitrary: l0)
  case Nil
  then show ?case by simp
next
  case (Cons d dd)
  from Cons.IH [OF Cons.prems [simplified]] show ?case
    by (auto dest!: objSet_set)
qed

lemma lookupOrZero_nonneg:
  assumes "\<forall>day \<in> set dd. 0 \<le> val day"
  shows "0 \<le> lookupOrZero (foldl (\<lambda>l day. objSet (d_date day) (val day) l) [] dd) k"
proof (cases "map_of (foldl (\<lambda>l day. objSet (d_date day) (val day) l) [] dd) k")
  case None
  then show ?thesis by (simp add: lookupOrZero_def)
next
  case (Some v)
  then have "(k, v) \<in> set (foldl (\<lambda>l day. objSet (d_date day) (val day) l) [] dd)"
    by (rule map_of_SomeD)
  then obtain day where "day \<in> set dd" "val day = v"
    using foldl_objSet_sound [of k v d_date val "[]" dd] by auto
  with assms Some show ?thesis by (auto simp: lookupOrZero_def)
qed

lemma map_d_xp_markTransitions: "map d_xp (markTransitions p days) = map d_xp days"
  by (induction days arbitrary: p) (auto split: list.splits)

lemma map_d_date_markTransitions: "map d_date (markTransitions p days) = map d_date days"
  by (induction days arbitrary: p) (auto split: list.splits)

lemma foldl_groupStep_xp_nonneg:
  assumes "\<forall>a \<in> set acts. 0 \<le> earned a" and "\<forall>(k, g) \<in> set obj. 0 \<le> d_xp g"
  shows "\<forall>(k, g) \<in> set (foldl (groupStep tz) obj acts). 0 \<le> d_xp g"
  using assms
proof (induction acts arbitrary: obj)
  case Nil
  then show ?case by simp
next
  case (Cons a acts)
  have "\<forall>(k, g) \<in> set (groupStep tz obj a). 0 \<le> d_xp g"
    using Cons.prems by (auto simp: groupStep_def Let_def dest!: objUpdate_set)
  with Cons show ?case by simp
qed

lemma groupActivitiesByDay_xp_nonneg:
  assumes "\<forall>a \<in> set acts. 0 \<le> earned a"
  shows "\<forall>day \<in> set (groupActivitiesByDay tz acts). 0 \<le> d_xp day"
proof -
  have "\<forall>(k, g) \<in> set (foldl (groupStep tz) [] acts). 0 \<le> d_xp g"
    using foldl_groupStep_xp_nonneg [OF assms, of "[]" tz] by simp
  then have "\<forall>x \<in> set (map d_xp (map snd (foldl (groupStep tz) [] acts))). 0 \<le> x"
    by auto
  then have "\<forall>x \<in> set (map d_xp (groupActivitiesByDay tz acts)). 0 \<le> x"
    by (simp add: groupActivitiesByDay_def Let_def map_d_xp_markTransitions)
  then show ?thesis by auto
qed

lemma cumulativeLoop_sorted:
  assumes "\<forall>k. 0 \<le> f k"
  shows "sorted (map snd (cumulativeLoop tz f l cur c)) \<and>
         (\<forall>v \<in> set (map snd (cumulativeLoop tz f l cur c)). c \<le> v)"
  using assms
proof (induction tz f l cur c rule: cumulativeLoop.induct)
  case (1 tz f l cur c)
  note assms = "1.prems"
  show ?case
  proof (cases "cur \<le> l")
    case False
    then show ?thesis by (subst (1 2) cumulativeLoop.simps) simp
  next
    case True
    note IH = "1.IH" [OF True refl refl "1.prems"]
    have step: "cumulativeLoop tz f l cur c =
        (toLocalDateString tz cur, c + f (toLocalDateString tz cur)) #
        cumulativeLoop tz f l (addDays cur 1) (c + f (toLocalDateString tz cur))"
      using True by (subst cumulativeLoop.simps) (simp add: Let_def)
    have "c \<le> c + f (toLocalDateString tz cur)" using assms by simp
    with IH show ?thesis unfolding step by force
  qed
qed

lemma weekCumulativeLoop_sorted:
  assumes "\<forall>k. 0 \<le> f k"
  shows "sorted (map snd (weekCumulativeLoop tz today f c is)) \<and>
         (\<forall>v \<in> set (map snd (weekCumulativeLoop tz today f c is)). c \<le> v)"
proof (induction "is" arbitrary: c)
  case Nil
  then show ?case by simp
next
  case (Cons i "is")
  have "c \<le> c + f (weekKey tz today i)" using assms by simp
  with Cons [of "c + f (weekKey tz today i)"] show ?case by (force simp: Let_def)
qed

lemma cumulativeSeries_sorted:
  assumes "\<forall>day \<in> set dd. 0 \<le> val day"
  shows "sorted (values_list (cumulativeSeries tz dd (foldl (\<lambda>l day. objSet (d_date day) (val day) l) [] dd)))"
proof -
  have "\<forall>k. 0 \<le> lookupOrZero (foldl (\<lambda>l day. objSet (d_date day) (val day) l) [] dd) k"
    using lookupOrZero_nonneg [OF assms] by simp
  from cumulativeLoop_sorted [OF this] show ?thesis
    by (simp add: cumulativeSeries_def Let_def)
qed

lemma cumulative_values_sorted:
  assumes "\<forall>a \<in> set acts. 0 \<le> earned a"
  shows "sorted (values_list (getCumulativeXPData tz (Some acts)))"
    and "sorted (values_list (getCumulativeActivitiesData tz (Some acts)))"
proof -
  have nn: "\<forall>a \<in> set (sort_key timestamp acts). 0 \<le> earned a" using assms by simp
  show "sorted (values_list (getCumulativeXPData tz (Some acts)))"
    using cumulativeSeries_sorted [OF groupActivitiesByDay_xp_nonneg [OF nn], of tz tz]
    by (simp add: getCumulativeXPData_def sample_def Let_def dailyXPLookup_def)
  show "sorted (values_list (getCumulativeActivitiesData tz (Some acts)))"
    using cumulativeSeries_sorted [of _ "\<lambda>d. int (d_count d)"]
    by (simp add: getCumulativeActivitiesData_def sample_def Let_def dailyCountLookup_def)
qed

subsection \<open>The range of the labels\<close>

lemma localDay_shift: "localDay tz (k * msPerDay - tz) = k"
  by (simp add: localDay_def msPerDay_def)

lemma localDay_key: "localDay tz (newDateFromKey k) = k + tz div msPerDay"
  by (simp add: localDay_def newDateFromKey_def msPerDay_def)

lemma cumulativeLoop_keys:
  "map fst (cumulativeLoop tz f (b * msPerDay - tz) (a * msPerDay - tz) c) = [a..b]"
proof (induction "nat (b - a + 1)" arbitrary: a c)
  case 0
  then have "\<not> a \<le> b" by simp
  then have "\<not> a * msPerDay - tz \<le> b * msPerDay - tz" by (simp add: msPerDay_def)
  then show ?case using \<open>\<not> a \<le> b\<close> by (subst cumulativeLoop.simps) simp
next
  case (Suc n)
  then have le: "a \<le> b" by simp
  then have le': "a * msPerDay - tz \<le> b * msPerDay - tz" by (simp add: msPerDay_def)
  have next_day: "addDays (a * msPerDay - tz) 1 = (a + 1) * msPerDay - tz"
    by (simp add: addDays_def algebra_simps)
  have "n = nat (b - (a + 1) + 1)" using Suc.hyps(2) by simp
  from Suc.hyps(1) [OF this]
  have IH: "\<And>c. map fst (cumulativeLoop tz f (b * msPerDay - tz) ((a + 1) * msPerDay - tz) c) = [a + 1..b]" .
  show ?case
    using le le' IH
    by (subst cumulativeLoop.simps)
       (simp add: Let_def next_day toLocalDateString_def localDay_shift upto_rec1 [of a b])
qed

lemma cumulativeSeries_labels:
  "labels (cumulativeSeries tz dd l) =
     map DateLabel [d_date (hd dd) + tz div msPerDay .. d_date (last dd) + tz div msPerDay]"
proof -
  have "map (\<lambda>d. DateLabel (fst d)) xs = map DateLabel (map fst xs)" for xs :: "(dateKey \<times> int) list"
    by simp
  then show ?thesis
    by (simp only: cumulativeSeries_def Let_def setHoursZero_def timeSeries.simps
        cumulativeLoop_keys localDay_key)
qed

subsection \<open>The days of the aggregator\<close>

lemma objUpdate_keys: "fst ` set (objUpdate k init f obj) = insert k (fst ` set obj)"
proof (induction obj)
  case Nil
  show ?case by simp
next
  case (Cons x obj)
  obtain k' v where x: "x = (k', v)" by (cases x)
  show ?case
  proof (cases "k = k'")
    case True
    then show ?thesis by (simp add: x)
  next
    case False
    then show ?thesis using Cons.IH by (simp add: x insert_commute)
  qed
qed

lemma sorted_scaled: "sorted (map (\<lambda>k. k * msPerDay) xs) \<Longrightarrow> sorted xs"
  by (induction xs) (auto simp: msPerDay_def)

lemma groupStep_keys:
  "fst ` set (groupStep tz obj a) = insert (toLocalDateString tz (timestamp a)) (fst ` set obj)"
  by (simp add: groupStep_def Let_def objUpdate_keys)

lemma foldl_groupStep_keys:
  "fst ` set (foldl (groupStep tz) obj acts) =
     fst ` set obj \<union> (\<lambda>a. toLocalDateString tz (timestamp a)) ` set acts"
proof (induction acts arbitrary: obj)
  case Nil
  show ?case by simp
next
  case (Cons a acts)
  show ?case by (simp add: Cons.IH groupStep_keys)
qed

lemma foldl_groupStep_date:
  assumes "\<forall>(k, g) \<in> set obj. d_date g = k"
  shows "\<forall>(k, g) \<in> set (foldl (groupStep tz) obj acts). d_date g = k"
  using assms
proof (induction acts arbitrary: obj)
  case Nil
  then show ?case by simp
next
  case (Cons a acts)
  have "\<forall>(k, g) \<in> set (groupStep tz obj a). d_date g = k"
    using Cons.prems by (auto simp: groupStep_def Let_def dest!: objUpdate_set)
  with Cons show ?case by simp
qed

lemma groupActivitiesByDay_dates:
  "set (map d_date (groupActivitiesByDay tz acts)) =
     (\<lambda>a. toLocalDateString tz (timestamp a)) ` set acts"
proof -
  have "\<forall>(k, g) \<in> set (foldl (groupStep tz) [] acts). d_date g = k"
    using foldl_groupStep_date [of "[]" tz acts] by simp
  then have "map d_date (map snd (foldl (groupStep tz) [] acts)) = map fst (foldl (groupStep tz) [] acts)"
    by auto
  then have "set (map d_date (map snd (foldl (groupStep tz) [] acts))) =
      (\<lambda>a. toLocalDateString tz (timestamp a)) ` set acts"
    using foldl_groupStep_keys [of tz "[]" acts] by simp
  then show ?thesis
    by (simp add: groupActivitiesByDay_def Let_def map_d_date_markTransitions del: map_map)
qed

lemma groupActivitiesByDay_sorted: "sorted (map d_date (groupActivitiesByDay tz acts))"
proof -
  let ?xs = "sort_key (\<lambda>g. newDateFromKey (d_date g)) (map snd (foldl (groupStep tz) [] acts))"
  have "sorted (map (\<lambda>g. newDateFromKey (d_date g)) ?xs)" by (rule sorted_sort_key)
  then have "sorted (map (\<lambda>k. k * msPerDay) (map d_date ?xs))"
    by (simp add: newDateFromKey_def comp_def)
  then have "sorted (map d_date ?xs)"
    by (rule sorted_scaled)
  then show ?thesis
    by (simp add: groupActivitiesByDay_def Let_def map_d_date_markTransitions)
qed

lemma sorted_hd_Min: "sorted xs \<Longrightarrow> xs \<noteq> [] \<Longrightarrow> hd xs = Min (set xs)"
  for xs :: "int list"
  by (cases xs) (auto intro!: Min_eqI [symmetric])

lemma sorted_last_Max: "sorted xs \<Longrightarrow> xs \<noteq> [] \<Longrightarrow> last xs = Max (set xs)"
  for xs :: "int list"
proof (induction xs)
  case Nil
  then show ?case by simp
next
  case (Cons x xs)
  show ?case
  proof (cases "xs = []")
    case True
    then show ?thesis by simp
  next
    case False
    with Cons have "last xs = Max (set xs)" by simp
    moreover have "x \<le> Max (set xs)" using Cons.prems False
      by (metis List.finite_set Max_ge_iff last_in_set set_empty sorted_simps(2))
    ultimately show ?thesis using False by (simp add: max_def)
  qed
qed

lemma cumulative_labels_range:
  assumes "acts \<noteq> []"
  shows "labels (getCumulativeXPData tz (Some acts)) =
     map DateLabel
       [Min ((\<lambda>a. toLocalDateString tz (timestamp a)) ` set acts) + tz div msPerDay ..
        Max ((\<lambda>a. toLocalDateString tz (timestamp a)) ` set acts) + tz div msPerDay]"
proof -
  let ?sorted = "sort_key timestamp acts"
  let ?dd = "groupActivitiesByDay tz ?sorted"
  have ne: "?sorted \<noteq> []" using assms by (metis length_sort length_0_conv)
  then have dd_ne: "map d_date ?dd \<noteq> []" using groupActivitiesByDay_not_Nil by simp
  have dates: "set (map d_date ?dd) = (\<lambda>a. toLocalDateString tz (timestamp a)) ` set acts"
    using groupActivitiesByDay_dates [of tz ?sorted] by simp
  have "hd (map d_date ?dd) = Min (set (map d_date ?dd))"
    using sorted_hd_Min [OF groupActivitiesByDay_sorted dd_ne] .
  then have first: "d_date (hd ?dd) = Min ((\<lambda>a. toLocalDateString tz (timestamp a)) ` set acts)"
    using dd_ne dates by (simp add: hd_map del: set_map)
  have "last (map d_date ?dd) = Max (set (map d_date ?dd))"
    using sorted_last_Max [OF groupActivitiesByDay_sorted dd_ne] .
  then have final: "d_date (last ?dd) = Max ((\<lambda>a. toLocalDateString tz (timestamp a)) ` set acts)"
    using dd_ne dates by (simp add: last_map del: set_map)
  show ?thesis
    using ne by (simp add: getCumulativeXPData_def Let_def cumulativeSeries_labels first final)
qed

lemma transitionsOnlyOn_lookup:
  "transitions s = Some (transitionLookup dd) \<Longrightarrow> transitionsOnlyOn dd s"
  by (auto simp: transitionsOnlyOn_def list_all_iff list_ex_iff dest!: transitionLookup_sound)

lemma transitionsOnlyOn_None: "transitions s = None \<Longrightarrow> transitionsOnlyOn dd s"
  by (simp add: transitionsOnlyOn_def)

lemma transitions_cumulativeSeries:
  "transitions (cumulativeSeries tz dd l) = Some (transitionLookup dd)"
  by (simp add: cumulativeSeries_def Let_def)

lemma transitions_rollingSeries:
  "transitions (rollingSeries f dd) = Some (transitionLookup dd)"
  by (simp add: rollingSeries_def Let_def)

lemma transitions_sample: "transitions (sample ls vs) = None"
  by (simp add: sample_def)

lemma transitions_weekView: "transitions (weekView tz d build) = None"
  by (simp add: weekView_def weekSeries_def sample_def Let_def split: option.splits)

lemma transitionsOnlyOn_cumulativeXP:
  "transitionsOnlyOn (groupActivitiesByDay tz (sort_key timestamp acts)) (getCumulativeXPData tz (Some acts))"
  by (simp add: getCumulativeXPData_def Let_def transitionsOnlyOn_lookup transitions_cumulativeSeries
      transitionsOnlyOn_None transitions_sample)

lemma transitionsOnlyOn_cumulativeActivities:
  "transitionsOnlyOn (groupActivitiesByDay tz (sort_key timestamp acts)) (getCumulativeActivitiesData tz (Some acts))"
  by (simp add: getCumulativeActivitiesData_def Let_def transitionsOnlyOn_lookup transitions_cumulativeSeries
      transitionsOnlyOn_None transitions_sample)

lemma transitionsOnlyOn_avg:
  "transitionsOnlyOn (groupActivitiesByDay tz (sort_key timestamp acts)) (getAvgXPOverTimeData tz (Some acts))"
  by (simp add: getAvgXPOverTimeData_def Let_def transitionsOnlyOn_lookup transitions_rollingSeries
      transitionsOnlyOn_None transitions_sample)

lemma transitionsOnlyOn_rate:
  "transitionsOnlyOn (groupActivitiesByDay tz (sort_key timestamp acts)) (getSuccessRateOverTimeData tz (Some acts))"
  by (simp add: getSuccessRateOverTimeData_def Let_def transitionsOnlyOn_lookup transitions_rollingSeries
      transitionsOnlyOn_None transitions_sample)

lemma getCumulativeXPData_aligned: "alignedSeries (getCumulativeXPData tz d)"
  unfolding alignedSeries_def by (rule getCumulativeXPData_len)

lemma week_aligned:
  "alignedSeries (getDailyXPData tz today d)"
  "alignedSeries (getWeeklyCumulativeXPData tz today d)"
  "alignedSeries (getDailyActivitiesData tz today d)"
  "alignedSeries (getWeeklyCumulativeActivitiesData tz today d)"
  "alignedSeries (getDailyAttainmentData tz today d)"
  by (simp_all add: alignedSeries_def getDailyXPData_def getWeeklyCumulativeXPData_def
      getDailyActivitiesData_def getWeeklyCumulativeActivitiesData_def
      getDailyAttainmentData_def weekView_len)

lemma week_no_transitions:
  "transitions (getDailyXPData tz today d) = None"
  "transitions (getWeeklyCumulativeXPData tz today d) = None"
  "transitions (getDailyActivitiesData tz today d) = None"
  "transitions (getWeeklyCumulativeActivitiesData tz today d) = None"
  "transitions (getDailyAttainmentData tz today d) = None"
  by (simp_all add: getDailyXPData_def getWeeklyCumulativeXPData_def
      getDailyActivitiesData_def getWeeklyCumulativeActivitiesData_def
      getDailyAttainmentData_def transitions_weekView)

lemma placeholder_no_transitions:
  "transitions (getCumulativeXPData tz None) = None"
  "transitions (getCumulativeActivitiesData tz None) = None"
  "transitions (getAvgXPOverTimeData tz None) = None"
  "transitions (getSuccessRateOverTimeData tz None) = None"
  by (simp_all add: getCumulativeXPData_def getCumulativeActivitiesData_def
      getAvgXPOverTimeData_def getSuccessRateOverTimeData_def transitions_sample)

lemma markTransitions_proper:
  "list_all properTransition (markTransitions previousCourse days)"
proof (induction days arbitrary: previousCourse)
  case Nil
  show ?case by simp
next
  case (Cons day days)
  show ?case
  proof (cases "d_courses day")
    case Nil
    then show ?thesis using Cons.IH by (simp add: properTransition_def)
  next
    case (Cons currentCourse others)
    then show ?thesis using Cons.IH
      by (cases previousCourse) (auto simp: properTransition_def)
  qed
qed

lemma groupActivitiesByDay_proper:
  "list_all properTransition (groupActivitiesByDay tz activities)"
  by (simp add: groupActivitiesByDay_def Let_def markTransitions_proper)

section \<open>Properties of the matcher\<close>

lemma rmatch_Star_suffix:
  "(s', c') \<in> set (rmatch (Star k) (s, c)) \<Longrightarrow>
     c' = c \<and> (\<exists>p. s = p @ s' \<and> list_all (inClass k) p)"
proof (induction s)
  case Nil
  then show ?case by simp
next
  case (Cons x xs)
  show ?case
  proof (cases "inClass k x \<and> (s', c') \<in> set (rmatch (Star k) (xs, c))")
    case True
    with Cons.IH obtain p where "c' = c" "xs = p @ s'" "list_all (inClass k) p" by auto
    then have "x # xs = (x # p) @ s' \<and> list_all (inClass k) (x # p)" using True by simp
    then show ?thesis using \<open>c' = c\<close> by blast
  next
    case False
    with Cons.prems have "s' = x # xs \<and> c' = c" by (auto split: if_splits)
    then show ?thesis by auto
  qed
qed

lemma rmatch_LazyStar_suffix:
  "(s', c') \<in> set (rmatch (LazyStar k) (s, c)) \<Longrightarrow>
     c' = c \<and> (\<exists>p. s = p @ s' \<and> list_all (inClass k) p)"
proof (induction s)
  case Nil
  then show ?case by simp
next
  case (Cons x xs)
  show ?case
  proof (cases "inClass k x \<and> (s', c') \<in> set (rmatch (LazyStar k) (xs, c))")
    case True
    with Cons.IH obtain p where "c' = c" "xs = p @ s'" "list_all (inClass k) p" by auto
    then have "x # xs = (x # p) @ s' \<and> list_all (inClass k) (x # p)" using True by simp
    then show ?thesis using \<open>c' = c\<close> by blast
  next
    case False
    with Cons.prems have "s' = x # xs \<and> c' = c" by (auto split: if_splits)
    then show ?thesis by auto
  qed
qed

lemma rmatch_consumes:
  "(s', c') \<in> set (rmatch r (s, c)) \<Longrightarrow> length s' + minLen r \<le> length s"
proof (induction r arbitrary: s c s' c')
  case (Lit l)
  then have "prefix l s" and "s' = drop (length l) s"
    by (simp_all split: if_splits)
  then show ?case using prefix_length_le [of l s] by simp
next
  case (Cls k)
  then obtain x where "s = x # s'" by (cases s) (simp_all split: if_splits)
  then show ?case by simp
next
  case (Seq a b)
  from Seq.prems obtain s1 c1 where "(s1, c1) \<in> set (rmatch a (s, c))"
    "(s', c') \<in> set (rmatch b (s1, c1))" by auto
  with Seq.IH(1) [of s1 c1 s c] Seq.IH(2) [of s' c' s1 c1] show ?case by simp
next
  case (Alt a b)
  from Alt.prems have "(s', c') \<in> set (rmatch a (s, c)) \<or> (s', c') \<in> set (rmatch b (s, c))"
    by simp
  with Alt.IH(1) [of s' c' s c] Alt.IH(2) [of s' c' s c] show ?case by auto
next
  case (Opt a)
  from Opt.prems have "(s', c') \<in> set (rmatch a (s, c)) \<or> s' = s" by auto
  with Opt.IH [of s' c' s c] show ?case by auto
next
  case (Star k)
  then show ?case using rmatch_Star_suffix [of s' c' k s c] by auto
next
  case (LazyStar k)
  then show ?case using rmatch_LazyStar_suffix [of s' c' k s c] by auto
next
  case (Group i a)
  from Group.prems obtain c0 where "(s', c0) \<in> set (rmatch a (s, c))" by auto
  with Group.IH [of s' c0 s c] show ?case by simp
qed

lemma execAll_total:
  assumes "0 < minLen r"
  shows "\<exists>ms. execAll r pos s = Some ms"
  using assms
proof (induction r pos s rule: execAll.induct)
  case (1 r pos s)
  show ?case
  proof (cases "rmatch r (s, [])")
    case Nil
    show ?thesis
    proof (cases s)
      case Nil': Nil
      with Nil show ?thesis by (subst execAll.simps) simp
    next
      case (Cons x rest)
      with "1.IH"(1) [OF Nil Cons "1.prems"] Nil show ?thesis by (subst execAll.simps) simp
    qed
  next
    case (Cons st others)
    obtain rest caps where st: "st = (rest, caps)" by (cases st)
    have "(rest, caps) \<in> set (rmatch r (s, []))" using Cons st by simp
    from rmatch_consumes [OF this] "1.prems" have pos: "length s - length rest \<noteq> 0"
      by arith
    from "1.IH"(2) [OF Cons st [symmetric] refl pos "1.prems"]
    show ?thesis using Cons st pos by (subst execAll.simps) (auto simp: Let_def)
  qed
qed

lemma rmatch_groupFree:
  "groupFree r \<Longrightarrow> (s', c') \<in> set (rmatch r (s, c)) \<Longrightarrow> c' = c"
proof (induction r arbitrary: s c s' c')
  case (Lit l)
  then show ?case by (simp split: if_splits)
next
  case (Cls k)
  then show ?case by (cases s) (simp_all split: if_splits)
next
  case (Seq a b)
  from Seq.prems obtain s1 c1 where m: "(s1, c1) \<in> set (rmatch a (s, c))"
    "(s', c') \<in> set (rmatch b (s1, c1))" by auto
  from Seq.IH(1) [OF _ m(1)] Seq.prems(1) have "c1 = c" by simp
  moreover from Seq.IH(2) [OF _ m(2)] Seq.prems(1) have "c' = c1" by simp
  ultimately show ?case by simp
next
  case (Alt a b)
  from Alt.prems have "(s', c') \<in> set (rmatch a (s, c)) \<or> (s', c') \<in> set (rmatch b (s, c))"
    by simp
  with Alt.IH(1) [of s' c' s c] Alt.IH(2) [of s' c' s c] Alt.prems(1) show ?case by auto
next
  case (Opt a)
  from Opt.prems have "(s', c') \<in> set (rmatch a (s, c)) \<or> c' = c" by auto
  with Opt.IH [of s' c' s c] Opt.prems(1) show ?case by auto
next
  case (Star k)
  then show ?case using rmatch_Star_suffix [of s' c' k s c] by simp
next
  case (LazyStar k)
  then show ?case using rmatch_LazyStar_suffix [of s' c' k s c] by simp
next
  case (Group i a)
  then show ?case by simp
qed

lemma rmatch_oneOrMore:
  assumes "(s', c') \<in> set (rmatch (oneOrMore k) (s, c))"
  shows "c' = c \<and> (\<exists>p. p \<noteq> [] \<and> s = p @ s' \<and> list_all (inClass k) p)"
proof -
  from assms obtain s1 c1 where m: "(s1, c1) \<in> set (rmatch (Cls k) (s, c))"
    "(s', c') \<in> set (rmatch (Star k) (s1, c1))" by (auto simp: oneOrMore_def)
  from m(1) obtain x where x: "s = x # s1" "inClass k x" "c1 = c"
    by (cases s) (auto split: if_splits)
  from rmatch_Star_suffix [OF m(2)] obtain p where p: "c' = c1" "s1 = p @ s'" "list_all (inClass k) p"
    by auto
  have "x # p \<noteq> [] \<and> s = (x # p) @ s' \<and> list_all (inClass k) (x # p)"
    using x p by simp
  then show ?thesis using x p by blast
qed

lemma rmatch_Group_oneOrMore:
  assumes "(s', c') \<in> set (rmatch (Group i (oneOrMore k)) (s, c))"
  shows "\<exists>p. p \<noteq> [] \<and> list_all (inClass k) p \<and> c' = (i, p) # c \<and> s = p @ s'"
proof -
  from assms obtain c0 where m: "(s', c0) \<in> set (rmatch (oneOrMore k) (s, c))"
    and c': "c' = (i, take (length s - length s') s) # c0" by auto
  from rmatch_oneOrMore [OF m] obtain p where "c0 = c" "p \<noteq> []" "s = p @ s'" "list_all (inClass k) p"
    by auto
  then show ?thesis using c' by auto
qed

lemma rmatch_SeqE:
  assumes "(s', c') \<in> set (rmatch (Seq a b) st)"
  obtains s1 c1 where "(s1, c1) \<in> set (rmatch a st)" and "(s', c') \<in> set (rmatch b (s1, c1))"
  using assms by auto

lemma diagnostic_tail:
  assumes "(rest, caps) \<in> set (rmatch (Seq (Group 3 (oneOrMore Digit))
              (Seq (Star Space) (Seq (Lit ''/'') (Seq (Star Space) (Lit ''XP''))))) (s, c))"
  shows "\<exists>p. p \<noteq> [] \<and> list_all isDigit p \<and> caps = (3, p) # c"
proof -
  let ?tail = "Seq (Star Space) (Seq (Lit ''/'') (Seq (Star Space) (Lit ''XP'')))"
  from assms obtain s1 c1 where m: "(s1, c1) \<in> set (rmatch (Group 3 (oneOrMore Digit)) (s, c))"
    "(rest, caps) \<in> set (rmatch ?tail (s1, c1))" by (rule rmatch_SeqE)
  have "groupFree ?tail" by simp
  from rmatch_groupFree [OF this m(2)] have "caps = c1" .
  moreover from rmatch_Group_oneOrMore [OF m(1)] obtain p where
    "p \<noteq> []" "list_all (inClass Digit) p" "c1 = (3, p) # c" by auto
  ultimately show ?thesis by (auto simp: list_all_iff)
qed

lemma diagnosticRegex_group3:
  assumes "(rest, caps) \<in> set (rmatch diagnosticRegex (s, c))"
  shows "\<exists>p. p \<noteq> [] \<and> list_all isDigit p \<and> map_of caps 3 = Some p"
proof -
  let ?tail = "Seq (Group 3 (oneOrMore Digit))
      (Seq (Star Space) (Seq (Lit ''/'') (Seq (Star Space) (Lit ''XP''))))"
  have split: "diagnosticRegex =
      Seq (Group 1 (Seq (Lit ''Mathematical Foundations '') (oneOrMore WordChar)))
        (Seq (oneOrMore Space)
          (Seq (Group 2 (alts [''Placement'', ''Supplemental'']))
            (Seq (oneOrMore Space) ?tail)))"
    by (simp add: diagnosticRegex_def)
  from assms [unfolded split] obtain s1 c1 where
    "(rest, caps) \<in> set (rmatch (Seq (oneOrMore Space)
          (Seq (Group 2 (alts [''Placement'', ''Supplemental'']))
            (Seq (oneOrMore Space) ?tail))) (s1, c1))"
    by (rule rmatch_SeqE)
  then obtain s2 c2 where
    "(rest, caps) \<in> set (rmatch (Seq (Group 2 (alts [''Placement'', ''Supplemental'']))
            (Seq (oneOrMore Space) ?tail)) (s2, c2))"
    by (rule rmatch_SeqE)
  then obtain s3 c3 where
    "(rest, caps) \<in> set (rmatch (Seq (oneOrMore Space) ?tail) (s3, c3))"
    by (rule rmatch_SeqE)
  then obtain s4 c4 where "(rest, caps) \<in> set (rmatch ?tail (s4, c4))"
    by (rule rmatch_SeqE)
  from diagnostic_tail [OF this] show ?thesis by auto
qed

lemma execAll_mem:
  "execAll r pos s = Some ms \<Longrightarrow> m \<in> set ms \<Longrightarrow>
     \<exists>t rest others. rmatch r (t, []) = (rest, groups m) # others \<and>
        matched m = take (length t - length rest) t"
proof (induction r pos s arbitrary: ms rule: execAll.induct)
  case (1 r pos s)
  show ?case
  proof (cases "rmatch r (s, [])")
    case Nil
    show ?thesis
    proof (cases s)
      case Nil': Nil
      with Nil "1.prems" show ?thesis by (subst (asm) execAll.simps) simp
    next
      case (Cons x xs)
      with Nil "1.prems"(1) have "execAll r (pos + 1) xs = Some ms"
        by (subst (asm) execAll.simps) simp
      from "1.IH"(1) [OF Nil Cons this "1.prems"(2)] show ?thesis .
    qed
  next
    case (Cons st others)
    obtain rest caps where st: "st = (rest, caps)" by (cases st)
    let ?n = "length s - length rest"
    from "1.prems"(1) Cons st have n: "?n \<noteq> 0"
      by (subst (asm) execAll.simps) (auto simp: Let_def split: if_splits)
    from "1.prems"(1) Cons st n obtain ms' where
      ms': "execAll r (pos + ?n) (drop ?n s) = Some ms'"
      and ms: "ms = \<lparr>index = pos, matched = take ?n s, groups = caps\<rparr> # ms'"
      by (subst (asm) execAll.simps) (auto simp: Let_def)
    show ?thesis
    proof (cases "m \<in> set ms'")
      case True
      from "1.IH"(2) [OF Cons st [symmetric] refl n ms' True] show ?thesis .
    next
      case False
      with "1.prems"(2) ms have "m = \<lparr>index = pos, matched = take ?n s, groups = caps\<rparr>" by simp
      with Cons st show ?thesis by auto
    qed
  qed
qed

lemma isDigit_other:
  "isDigit x \<Longrightarrow> \<not> isSpace x \<and> x \<noteq> CHR ''-'' \<and> x \<noteq> CHR ''+'' \<and> x \<noteq> CHR ''x'' \<and> x \<noteq> CHR ''X''"
  by (auto simp: isDigit_def isSpace_def)

lemma parseInt_digits:
  assumes "p \<noteq> []" and "list_all isDigit p"
  shows "parseInt p = Num (int (digitsValue 10 p))"
proof -
  from assms obtain x xs where p: "p = x # xs" and x: "isDigit x" and xs: "list_all isDigit xs"
    by (cases p) auto
  note xf = isDigit_other [OF x]
  have tw: "takeWhile isDigit xs = xs" using xs by (simp add: list_all_iff)
  show ?thesis
  proof (cases xs)
    case Nil
    then show ?thesis using p x xf by (simp add: parseInt_def Let_def)
  next
    case (Cons y ys)
    with xs have y: "isDigit y" by simp
    note yf = isDigit_other [OF y]
    from tw Cons y have tw': "takeWhile isDigit ys = ys" by simp
    show ?thesis using p x xf Cons y yf by (simp add: parseInt_def Let_def tw')
  qed
qed

lemma diagnostic_earned_positive:
  assumes "execAll diagnosticRegex 0 sectionText = Some ms" and "m \<in> set ms"
  shows "0 < jsOr (parseInt (grp m 3)) 63"
proof -
  from execAll_mem [OF assms] obtain t rest others where
    "rmatch diagnosticRegex (t, []) = (rest, groups m) # others" by blast
  then have "(rest, groups m) \<in> set (rmatch diagnosticRegex (t, []))" by simp
  from diagnosticRegex_group3 [OF this] obtain p where
    p: "p \<noteq> []" "list_all isDigit p" "grp m 3 = p" by (auto simp: grp_def)
  show ?thesis using parseInt_digits [OF p(1,2)] p(3) by simp
qed

section \<open>Properties of the parser\<close>

lemma minLen_patterns:
  "0 < minLen datePattern" "0 < minLen diagnosticRegex" "0 < minLen activityRegex"
  by (simp_all add: datePattern_def diagnosticRegex_def activityRegex_def oneOrMore_def)

lemma diagnosticPass_total: "\<exists>acts. diagnosticPass tz now dateStr sectionText = Some acts"
  using execAll_total [OF minLen_patterns(2), of 0 sectionText]
  by (auto simp: diagnosticPass_def)

lemma gradedPass_total: "\<exists>acts. gradedPass tz now dateStr sectionText = Some acts"
  using execAll_total [OF minLen_patterns(3), of 0 sectionText]
  by (auto simp: gradedPass_def)

lemma normalizeActivityType_range: "normalizeActivityType t \<in> set activityTypes"
  by (simp add: normalizeActivityType_def activityTypes_def Let_def split: option.splits)

lemma diagnosticPass_types:
  "diagnosticPass tz now dateStr sectionText = Some acts \<Longrightarrow> a \<in> set acts \<Longrightarrow>
     type a = ''diagnostic''"
  by (auto simp: diagnosticPass_def diagnosticActivity_def Let_def)

lemma gradedPass_types:
  "gradedPass tz now dateStr sectionText = Some acts \<Longrightarrow> a \<in> set acts \<Longrightarrow>
     type a \<in> set activityTypes"
  by (auto simp: gradedPass_def gradedActivity_def Let_def normalizeActivityType_range)

lemma parseActivitySection_types:
  "\<exists>acts. parseActivitySection tz now dateStr sectionText = Some acts \<and>
     (\<forall>a \<in> set acts. type a \<in> set activityTypes)"
proof -
  obtain ds where ds: "diagnosticPass tz now dateStr sectionText = Some ds"
    using diagnosticPass_total by blast
  obtain gs where gs: "gradedPass tz now dateStr sectionText = Some gs"
    using gradedPass_total by blast
  have "\<forall>a \<in> set ds. type a \<in> set activityTypes"
    using diagnosticPass_types [OF ds] by (simp add: activityTypes_def)
  moreover have "\<forall>a \<in> set gs. type a \<in> set activityTypes"
    using gradedPass_types [OF gs] by blast
  ultimately show ?thesis by (auto simp: parseActivitySection_def ds gs)
qed

lemma parseSections_types:
  "\<exists>acts. parseSections tz now text dms = Some acts \<and>
     (\<forall>a \<in> set acts. type a \<in> set activityTypes)"
proof (induction dms)
  case Nil
  show ?case by simp
next
  case (Cons dm dms)
  let ?sectionText = "substring text (endIndex dm)
      (case dms of [] \<Rightarrow> length text | nextDate # _ \<Rightarrow> startIndex nextDate)"
  from Cons.IH obtain later where later: "parseSections tz now text dms = Some later"
    "\<forall>a \<in> set later. type a \<in> set activityTypes" by blast
  obtain here where here: "parseActivitySection tz now (dm_date dm) ?sectionText = Some here"
    "\<forall>a \<in> set here. type a \<in> set activityTypes"
    using parseActivitySection_types by blast
  show ?case using later here by (auto simp: Let_def)
qed

lemma parseActivities_types:
  "\<exists>acts. parseActivities tz now text = Some acts \<and>
     (\<forall>a \<in> set acts. type a \<in> set activityTypes)"
proof -
  obtain ms where ms: "execAll datePattern 0 text = Some ms"
    using execAll_total [OF minLen_patterns(1)] by blast
  let ?dms = "map (\<lambda>m. \<lparr>dm_date = matched m, startIndex = index m,
                          endIndex = index m + length (matched m)\<rparr>) ms"
  from parseSections_types [of tz now "text" ?dms] obtain acts where
    "parseSections tz now text ?dms = Some acts" "\<forall>a \<in> set acts. type a \<in> set activityTypes"
    by blast
  then show ?thesis by (auto simp: parseActivities_def ms Let_def)
qed

lemma diagnosticPass_fields:
  assumes "diagnosticPass tz now dateStr sectionText = Some acts" and "a \<in> set acts"
  shows "0 < earned a \<and> base a = Num (earned a) \<and> percentage a = 100 \<and> isSuccess a"
proof -
  from assms obtain ms m where ms: "execAll diagnosticRegex 0 sectionText = Some ms"
    and m: "m \<in> set ms" and a: "a = diagnosticActivity tz now dateStr m"
    by (auto simp: diagnosticPass_def)
  from diagnostic_earned_positive [OF ms m] show ?thesis
    by (simp add: a diagnosticActivity_def Let_def)
qed

section \<open>The claims\<close>

subsection \<open>Category counts\<close>

text \<open>
  C1. An activity whose \<open>title\<close> contains "quiz" is to be counted as a quiz whatever its
  type. \<open>calculateActivityCounts\<close> looks for "quiz" in \<open>activity.taskName\<close>, which the
  parser never sets, and does not read \<open>title\<close>: the activity of type "Assessment" with
  the title "Unit 2 Quiz" is counted under diagnostics and not under quizzes, and the
  lesson that the parser reads from "... Lesson Quiz Warm Up 8 / 10 XP", with the title
  "Quiz Warm Up", is counted under lessons.
\<close>

theorem quiz_title_counted_as_diagnostic:
  "calculateActivityCounts [quizByTitle] =
     \<lparr>diagnostics = 1, lessons = 0, reviews = 0, multisteps = 0, quizzes = 0\<rparr> \<and>
   map_option (map (\<lambda>a. (type a, title a, taskName a))) (parseActivities 0 0 quizLessonText) =
     Some [(''lesson'', ''Quiz Warm Up'', None)] \<and>
   map_option calculateActivityCounts (parseActivities 0 0 quizLessonText) =
     Some \<lparr>diagnostics = 0, lessons = 1, reviews = 0, multisteps = 0, quizzes = 0\<rparr>"
  by code_simp

text \<open>
  The override itself works on the field the code reads: an activity whose \<open>taskName\<close>
  contains "quiz" is counted as a quiz whatever its type, and the \<open>title\<close> never matters.
\<close>

lemma countActivity_taskName_quiz:
  "isQuiz a \<Longrightarrow> countActivity counts a = counts\<lparr>quizzes := quizzes counts + 1\<rparr>"
  by (simp add: countActivity_def)

lemma countActivity_ignores_title:
  "countActivity counts (a\<lparr>title := t\<rparr>) = countActivity counts a"
  by (simp add: countActivity_def isQuiz_def)

subsection \<open>Success metrics\<close>

text \<open>
  C2. \<open>successRate\<close> is to be computed with the substitution rule of the daily aggregator,
  a base that is not set counting as 10. \<open>calculateSuccessMetrics\<close> adds \<open>activity.base\<close>
  as it is, where \<open>groupActivitiesByDay\<close> adds \<open>activity.base || 10\<close>: for a lesson parsed
  from "0 / 0 XP" and one from "8 / 10 XP" the snapshot has 8 of 10 possible, a rate of
  80, and the aggregator has 8 of 20 for the same day; for a lesson without \<open>base\<close> the
  snapshot's total is \<open>NaN\<close> and the rate 0, and the aggregator has 8 of 10.
\<close>

theorem success_rate_without_default_base:
  "successRate (calculateSuccessMetrics [lessonZero, lessonEight]) = 80 \<and>
   totalPossible (calculateSuccessMetrics [lessonZero, lessonEight]) = Num 10 \<and>
   map (\<lambda>g. (d_totalEarned g, d_totalPossible g))
     (groupActivitiesByDay 0 [lessonZero, lessonEight]) = [(8, 20)] \<and>
   successRate (calculateSuccessMetrics [lessonEight\<lparr>base := Undefined\<rparr>]) = 0 \<and>
   totalPossible (calculateSuccessMetrics [lessonEight\<lparr>base := Undefined\<rparr>]) = NaN \<and>
   map (\<lambda>g. (d_totalEarned g, d_totalPossible g))
     (groupActivitiesByDay 0 [lessonEight\<lparr>base := Undefined\<rparr>]) = [(8, 10)]"
  by code_simp

text \<open>
  What \<open>calculateSuccessMetrics\<close> computes: the rate of the totals, rounded to one
  decimal and not capped at 100.
\<close>

lemma foldl_attainmentStep:
  "foldl attainmentStep (te, tp) data =
     (te + sum_list (map earned data),
      foldl (\<lambda>p a. jsAdd p (if isDiagnostic a then Num (earned a) else base a)) tp data)"
  by (induction data arbitrary: te tp) (simp_all add: attainmentStep_def)

lemma successRate_formula:
  "successRate (calculateSuccessMetrics data) =
     of_int (round (xpAttainmentRate (sum_list (map earned data))
        (foldl (\<lambda>p a. jsAdd p (if isDiagnostic a then Num (earned a) else base a)) (Num 0) data)
        * 10)) / 10"
  by (simp add: calculateSuccessMetrics_def foldl_attainmentStep split: prod.splits)

text \<open>
  C3. The perfect, pass and fail counters of the snapshot add up to \<open>totalActivities\<close>.
  \<open>perfectCount\<close> counts the activities that are not diagnostics and have
  \<open>earned > base\<close>; \<open>passCount\<close> those that are not diagnostics and have
  \<open>0 < earned <= base\<close>, and the diagnostics with \<open>earned > 0\<close>; \<open>failCount\<close> all the
  others.
\<close>

theorem success_counts_partition:
  "perfectCount (successMetrics (calculateStats tz today data)) +
   passCount (successMetrics (calculateStats tz today data)) +
   failCount (successMetrics (calculateStats tz today data)) =
   totalActivities (calculateStats tz today data) \<and>
   perfectCount (successMetrics (calculateStats tz today data)) =
     length (filter (\<lambda>a. \<not> isDiagnostic a \<and> jsGt (Num (earned a)) (base a)) data) \<and>
   passCount (successMetrics (calculateStats tz today data)) =
     length (filter (\<lambda>a. (isDiagnostic a \<and> earned a > 0) \<or>
                          (\<not> isDiagnostic a \<and> earned a > 0 \<and> jsLe (Num (earned a)) (base a))) data) \<and>
   failCount (successMetrics (calculateStats tz today data)) =
     length (filter (\<lambda>a. (isDiagnostic a \<and> earned a \<le> 0) \<or>
                          (\<not> isDiagnostic a \<and> \<not> jsGt (Num (earned a)) (base a) \<and>
                           \<not> (earned a > 0 \<and> jsLe (Num (earned a)) (base a)))) data)"
proof (cases "data = []")
  case True
  then show ?thesis by (simp add: calculateStats_def getEmptyStats_def)
next
  case False
  then show ?thesis
    using three_way_partition [of data]
    by (simp add: calculateStats_def calculateSuccessMetrics_def foldl_successStep
        split: prod.splits)
qed

theorem success_counts_partition_witness:
  "perfectCount (successMetrics (calculateStats 0 0 [lessonZero, lessonEight, reviewLater])) +
   passCount (successMetrics (calculateStats 0 0 [lessonZero, lessonEight, reviewLater])) +
   failCount (successMetrics (calculateStats 0 0 [lessonZero, lessonEight, reviewLater])) = 3"
  using success_counts_partition [of 0 0 "[lessonZero, lessonEight, reviewLater]"]
  by (simp add: calculateStats_def)

subsection \<open>Cumulative series\<close>

text \<open>
  C4. The labels of the cumulative XP series are to run from the first to the last
  active day. The code reads the day keys back with \<open>new Date(key)\<close>, which is midnight
  UTC, and then sets the hours to zero in local time. In a zone behind UTC that is the
  day before: five hours behind UTC, for activities on 2026-01-05 (day 20458) and
  2026-01-07 (day 20460), the labels are the days 20457 to 20459 and the values 0, 8, 8,
  so the series starts a day early and never reaches the last day's XP.
\<close>

theorem cumulative_labels_shifted_behind_utc:
  "labels (getCumulativeXPData (- 18000000) (Some [lessonEight, reviewLater])) =
     [DateLabel 20457, DateLabel 20458, DateLabel 20459] \<and>
   values_list (getCumulativeXPData (- 18000000) (Some [lessonEight, reviewLater])) = [0, 8, 8] \<and>
   map (\<lambda>a. toLocalDateString (- 18000000) (timestamp a)) [lessonEight, reviewLater] =
     [20458, 20460] \<and>
   map dateKeyText [20457, 20458, 20459, 20460] =
     [''2026-01-04'', ''2026-01-05'', ''2026-01-06'', ''2026-01-07'']"
  by code_simp

text \<open>
  In general the labels are the contiguous range of days from the first to the last
  active day, both moved by \<open>tz div msPerDay\<close> days: by nothing in a zone at or ahead of
  UTC, where the range is the one claimed and has \<open>daysBetween + 1\<close> labels.
\<close>

lemma cumulative_labels_ahead_of_utc:
  assumes "acts \<noteq> []" and "0 \<le> tz" and "tz < msPerDay"
  shows "labels (getCumulativeXPData tz (Some acts)) =
     map DateLabel
       [Min ((\<lambda>a. toLocalDateString tz (timestamp a)) ` set acts) ..
        Max ((\<lambda>a. toLocalDateString tz (timestamp a)) ` set acts)]"
  using cumulative_labels_range [OF assms(1), of tz] assms(2,3) by simp

lemma daysBetween_midnights:
  "daysBetween (localMidnight tz a) (localMidnight tz b) = \<bar>a - b\<bar>"
proof -
  have "a * msPerDay - tz - (b * msPerDay - tz) = (a - b) * msPerDay"
    by (simp add: algebra_simps)
  then have "(of_int (a * msPerDay - tz - (b * msPerDay - tz)) :: rat) / of_int msPerDay =
      of_int (a - b)"
    by (simp add: msPerDay_def)
  then have "daysBetween (localMidnight tz a) (localMidnight tz b) =
      round \<bar>of_int (a - b) :: rat\<bar>"
    by (simp only: daysBetween_def localMidnight_def)
  also have "\<dots> = round (of_int \<bar>a - b\<bar> :: rat)"
    by (simp only: of_int_abs)
  also have "\<dots> = \<bar>a - b\<bar>"
    by (rule round_of_int)
  finally show ?thesis .
qed

lemma cumulative_length_ahead_of_utc:
  assumes "acts \<noteq> []" and "0 \<le> tz" and "tz < msPerDay"
  shows "int (length (labels (getCumulativeXPData tz (Some acts)))) =
     daysBetween
       (localMidnight tz (Min ((\<lambda>a. toLocalDateString tz (timestamp a)) ` set acts)))
       (localMidnight tz (Max ((\<lambda>a. toLocalDateString tz (timestamp a)) ` set acts))) + 1"
proof -
  have "Min ((\<lambda>a. toLocalDateString tz (timestamp a)) ` set acts) \<le>
        Max ((\<lambda>a. toLocalDateString tz (timestamp a)) ` set acts)"
    using assms(1) by simp
  then show ?thesis
    by (simp add: cumulative_labels_ahead_of_utc [OF assms] daysBetween_midnights)
qed

text \<open>
  C5. When no activity has a negative \<open>earned\<close>, the values of the cumulative XP series
  and of the cumulative activity count series never decrease from one position to the
  next.
\<close>

theorem cumulative_values_nondecreasing:
  assumes "\<forall>a \<in> set acts. 0 \<le> earned a"
  shows "sorted (values_list (getCumulativeXPData tz (Some acts))) \<and>
         sorted (values_list (getCumulativeActivitiesData tz (Some acts)))"
  using cumulative_values_sorted [OF assms] by simp

theorem cumulative_values_nondecreasing_witness:
  "0 \<le> earned reviewLater \<and> 0 \<le> earned lessonEight \<and> 0 \<le> earned lessonZero \<and>
   sorted (values_list (getCumulativeXPData 3600000 (Some [reviewLater, lessonEight, lessonZero]))) \<and>
   sorted (values_list (getCumulativeActivitiesData 3600000 (Some [reviewLater, lessonEight, lessonZero])))"
proof -
  have h: "\<forall>a \<in> set [reviewLater, lessonEight, lessonZero]. 0 \<le> earned a"
    by (simp add: reviewLater_def lessonEight_def lessonZero_def)
  from cumulative_values_nondecreasing [OF h, of 3600000] h show ?thesis by simp
qed

subsection \<open>Shape of the series\<close>

text \<open>
  C8. Every series builder returns \<open>labels\<close> and \<open>values\<close> of the same length, for every
  input: the cumulative XP and activity count series, the rolling average and rolling
  attainment series, and the five week views. Where a \<open>transitions\<close> object is returned
  (the first four, for a list of activities), each of its entries is the date of a day
  that the daily aggregator flagged as a course transition, with that day's two
  courses, and a flagged day is one whose first course differs from the course before
  it; the placeholder series and the week views return none.
\<close>

theorem series_aligned_transitions_sparse:
  "alignedSeries (getCumulativeXPData tz d) \<and>
   alignedSeries (getCumulativeActivitiesData tz d) \<and>
   alignedSeries (getAvgXPOverTimeData tz d) \<and>
   alignedSeries (getSuccessRateOverTimeData tz d) \<and>
   alignedSeries (getDailyXPData tz today d) \<and>
   alignedSeries (getWeeklyCumulativeXPData tz today d) \<and>
   alignedSeries (getDailyActivitiesData tz today d) \<and>
   alignedSeries (getWeeklyCumulativeActivitiesData tz today d) \<and>
   alignedSeries (getDailyAttainmentData tz today d) \<and>
   transitionsOnlyOn (groupActivitiesByDay tz (sort_key timestamp acts))
     (getCumulativeXPData tz (Some acts)) \<and>
   transitionsOnlyOn (groupActivitiesByDay tz (sort_key timestamp acts))
     (getCumulativeActivitiesData tz (Some acts)) \<and>
   transitionsOnlyOn (groupActivitiesByDay tz (sort_key timestamp acts))
     (getAvgXPOverTimeData tz (Some acts)) \<and>
   transitionsOnlyOn (groupActivitiesByDay tz (sort_key timestamp acts))
     (getSuccessRateOverTimeData tz (Some acts)) \<and>
   list_all properTransition (groupActivitiesByDay tz (sort_key timestamp acts)) \<and>
   transitions (getCumulativeXPData tz None) = None \<and>
   transitions (getCumulativeActivitiesData tz None) = None \<and>
   transitions (getAvgXPOverTimeData tz None) = None \<and>
   transitions (getSuccessRateOverTimeData tz None) = None \<and>
   transitions (getDailyXPData tz today d) = None \<and>
   transitions (getWeeklyCumulativeXPData tz today d) = None \<and>
   transitions (getDailyActivitiesData tz today d) = None \<and>
   transitions (getWeeklyCumulativeActivitiesData tz today d) = None \<and>
   transitions (getDailyAttainmentData tz today d) = None"
  by (simp only: alignedSeries_def getCumulativeXPData_len getCumulativeActivitiesData_len
      getAvgXPOverTimeData_len getSuccessRateOverTimeData_len week_aligned [unfolded alignedSeries_def]
      transitionsOnlyOn_cumulativeXP transitionsOnlyOn_cumulativeActivities
      transitionsOnlyOn_avg transitionsOnlyOn_rate week_no_transitions groupActivitiesByDay_proper
      placeholder_no_transitions simp_thms)

theorem series_aligned_transitions_sparse_witness:
  "labels (getCumulativeXPData 3600000 (Some [reviewLater, lessonEight, lessonZero])) =
     [DateLabel 20458, DateLabel 20459, DateLabel 20460] \<and>
   values_list (getCumulativeXPData 3600000 (Some [reviewLater, lessonEight, lessonZero])) =
     [8, 8, 20] \<and>
   transitions (getCumulativeXPData 3600000 (Some [reviewLater, lessonEight, lessonZero])) =
     Some [(20460, Some ''Mathematical Foundations I'', Some ''Mathematical Foundations II'')] \<and>
   alignedSeries (getCumulativeXPData 3600000 (Some [reviewLater, lessonEight, lessonZero])) \<and>
   transitionsOnlyOn
     (groupActivitiesByDay 3600000 (sort_key timestamp [reviewLater, lessonEight, lessonZero]))
     (getCumulativeXPData 3600000 (Some [reviewLater, lessonEight, lessonZero]))"
proof -
  have "labels (getCumulativeXPData 3600000 (Some [reviewLater, lessonEight, lessonZero])) =
     [DateLabel 20458, DateLabel 20459, DateLabel 20460] \<and>
   values_list (getCumulativeXPData 3600000 (Some [reviewLater, lessonEight, lessonZero])) =
     [8, 8, 20] \<and>
   transitions (getCumulativeXPData 3600000 (Some [reviewLater, lessonEight, lessonZero])) =
     Some [(20460, Some ''Mathematical Foundations I'', Some ''Mathematical Foundations II'')]"
    by code_simp
  with series_aligned_transitions_sparse
    [of 3600000 "Some [reviewLater, lessonEight, lessonZero]" 0 "[reviewLater, lessonEight, lessonZero]"]
  show ?thesis by simp
qed

subsection \<open>The parser\<close>

text \<open>
  C6. The text of the header "Mon, Jan 5th, 2026" followed by "Mathematical Foundations
  I Lesson Intro to Limits 8 / 10 XP" parses to exactly one activity: a lesson with
  \<open>earned\<close> 8, \<open>base\<close> 10, \<open>percentage\<close> 80 and \<open>isSuccess\<close> true, whose timestamp
  is midnight, local time, of 2026-01-05, in every time zone. The header and the line
  are joined by a space (\<open>scenarioA\<close>) or by a line feed (\<open>scenarioALines\<close>).
\<close>

theorem parse_scenarioA:
  "parseActivities tz now scenarioA =
     Some [\<lparr>date = ''Mon, Jan 5th, 2026'', timestamp = localMidnight tz (daysFromCivil 2026 1 5),
            type = ''lesson'', course = Some ''Mathematical Foundations I'',
            title = ''Intro to Limits'', taskName = None, earned = 8, maxXP = Num 10,
            base = Num 10, percentage = 80, isSuccess = True,
            rawText = ''Mathematical Foundations I Lesson Intro to Limits 8 / 10 XP''\<rparr>] \<and>
   parseActivities tz now scenarioALines = parseActivities tz now scenarioA \<and>
   toLocalDateString tz (localMidnight tz (daysFromCivil 2026 1 5)) = daysFromCivil 2026 1 5 \<and>
   civilFromDays (daysFromCivil 2026 1 5) = (2026, 1, 5) \<and>
   round (of_int 8 / of_int 10 * 100 :: rat) = 80"
proof -
  have "parseActivities tz now scenarioA =
     Some [\<lparr>date = ''Mon, Jan 5th, 2026'', timestamp = localMidnight tz (daysFromCivil 2026 1 5),
            type = ''lesson'', course = Some ''Mathematical Foundations I'',
            title = ''Intro to Limits'', taskName = None, earned = 8, maxXP = Num 10,
            base = Num 10, percentage = 80, isSuccess = True,
            rawText = ''Mathematical Foundations I Lesson Intro to Limits 8 / 10 XP''\<rparr>]"
    by code_simp
  moreover have "parseActivities tz now scenarioALines = parseActivities tz now scenarioA"
    by code_simp
  moreover have "toLocalDateString tz (localMidnight tz (daysFromCivil 2026 1 5)) =
      daysFromCivil 2026 1 5"
    by (simp add: toLocalDateString_def localMidnight_def localDay_def msPerDay_def)
  moreover have "civilFromDays (daysFromCivil 2026 1 5) = (2026, 1, 5)"
    by code_simp
  moreover have "round (of_int 8 / of_int 10 * 100 :: rat) = 80"
    by code_simp
  ultimately show ?thesis by simp
qed

theorem parse_scenarioA_witness:
  "map_option (map (\<lambda>a. (type a, earned a, base a, percentage a, isSuccess a)))
     (parseActivities (- 18000000) 0 scenarioA) = Some [(''lesson'', 8, Num 10, 80, True)] \<and>
   map_option (map (\<lambda>a. toLocalDateString (- 18000000) (timestamp a)))
     (parseActivities (- 18000000) 0 scenarioA) = Some [daysFromCivil 2026 1 5]"
  using parse_scenarioA [of "- 18000000" 0] by simp

text \<open>
  C7. The empty text parses to the empty list of activities, and the snapshot of an empty
  list is the zero snapshot of \<open>getEmptyStats\<close>: a success rate of 0, every total and
  counter 0, no daily statistics and no last-14-days series.
\<close>

theorem empty_input_empty_snapshot:
  "parseActivities tz now [] = Some [] \<and>
   calculateStats tz today [] = getEmptyStats \<and>
   successRate (successMetrics (calculateStats tz today [])) = 0 \<and>
   perfectCount (successMetrics (calculateStats tz today [])) = 0 \<and>
   passCount (successMetrics (calculateStats tz today [])) = 0 \<and>
   failCount (successMetrics (calculateStats tz today [])) = 0 \<and>
   totalXP (calculateStats tz today []) = 0 \<and>
   totalActivities (calculateStats tz today []) = 0 \<and>
   activityCounts (calculateStats tz today []) = zeroCounts \<and>
   avgXPPerDay (calculateStats tz today []) = 0 \<and>
   dailyStats (calculateStats tz today []) = [] \<and>
   last14Days (calculateStats tz today []) = [] \<and>
   weekdayStats (calculateStats tz today []) =
     \<lparr>weekdayStats_arr = replicate 7 (0, 0), bestWeekday = [], bestWeekdayAvg = 0\<rparr> \<and>
   bestPerformance (calculateStats tz today []) =
     \<lparr>bestDayXP = 0, bestDayDate = None, bestAccuracy = 0, bestAccuracyDate = None\<rparr> \<and>
   timeAnalysis (calculateStats tz today []) =
     \<lparr>hourlyStats = replicate 24 (0, 0), mostProductiveHour = [], maxHourlyXP = 0\<rparr>"
proof -
  have "parseActivities tz now [] = Some []"
    by code_simp
  then show ?thesis
    by (simp add: calculateStats_def getEmptyStats_def zeroCounts_def)
qed

theorem empty_input_empty_snapshot_witness:
  "map_option (calculateStats 0 0) (parseActivities 0 0 []) = Some getEmptyStats"
  using empty_input_empty_snapshot [of 0 0 0] by simp

text \<open>
  C9. \<open>parseActivities\<close> returns for every text, and every activity it returns has one of
  the five types diagnostic, lesson, review, quiz and multistep. \<open>normalizeActivityType\<close>
  only ever returns one of the five, and returns lesson for a missing type, for the
  empty type and for every type name outside the ones it knows.
\<close>

theorem parsed_types_closed:
  "(\<exists>acts. parseActivities tz now text = Some acts \<and>
      list_all (\<lambda>a. type a \<in> set activityTypes) acts) \<and>
   normalizeActivityType t \<in> set activityTypes \<and>
   normalizeActivityType None = ''lesson'' \<and>
   normalizeActivityType (Some []) = ''lesson'' \<and>
   (trim (toLowerCase raw) \<notin> set knownTypeNames \<longrightarrow>
      normalizeActivityType (Some raw) = ''lesson'')"
  using parseActivities_types [of tz now "text"] normalizeActivityType_range [of t]
  by (auto simp: list_all_iff normalizeActivityType_def knownTypeNames_def Let_def)

theorem parsed_types_closed_witness:
  "trim (toLowerCase ''Homework'') \<notin> set knownTypeNames \<and>
   normalizeActivityType (Some ''Homework'') = ''lesson'' \<and>
   (\<exists>acts. parseActivities 0 0 scenarioA = Some acts \<and>
      list_all (\<lambda>a. type a \<in> set activityTypes) acts)"
proof -
  have h: "trim (toLowerCase ''Homework'') \<notin> set knownTypeNames"
    by code_simp
  with parsed_types_closed [of 0 0 scenarioA None "''Homework''"] show ?thesis by simp
qed

text \<open>
  C10. The diagnostic pass returns for every section text, and every activity it builds
  has \<open>earned = base > 0\<close>, \<open>percentage = 100\<close> and \<open>isSuccess = true\<close>. For the line
  "Mathematical Foundations III Placement 0 / XP" the number 0 is falsy, so
  \<open>parseInt(xpValue) || 63\<close> is 63 and \<open>earned = base = 63\<close>.
\<close>

theorem diagnostic_pass_full_marks:
  "(\<exists>acts. diagnosticPass tz now dateStr sectionText = Some acts \<and>
      list_all (\<lambda>a. 0 < earned a \<and> base a = Num (earned a) \<and> percentage a = 100 \<and>
                    isSuccess a) acts) \<and>
   diagnosticPass tz now ''Mon, Jan 5th, 2026'' placementZero =
     Some [\<lparr>date = ''Mon, Jan 5th, 2026'', timestamp = localMidnight tz (daysFromCivil 2026 1 5),
            type = ''diagnostic'', course = Some ''Mathematical Foundations III'',
            title = ''Placement Activity'', taskName = None, earned = 63, maxXP = Num 63,
            base = Num 63, percentage = 100, isSuccess = True,
            rawText = ''Mathematical Foundations III Placement 0 / XP''\<rparr>]"
proof -
  obtain acts where acts: "diagnosticPass tz now dateStr sectionText = Some acts"
    using diagnosticPass_total by blast
  have "list_all (\<lambda>a. 0 < earned a \<and> base a = Num (earned a) \<and> percentage a = 100 \<and>
                    isSuccess a) acts"
    using diagnosticPass_fields [OF acts] by (simp add: list_all_iff)
  moreover have "diagnosticPass tz now ''Mon, Jan 5th, 2026'' placementZero =
     Some [\<lparr>date = ''Mon, Jan 5th, 2026'', timestamp = localMidnight tz (daysFromCivil 2026 1 5),
            type = ''diagnostic'', course = Some ''Mathematical Foundations III'',
            title = ''Placement Activity'', taskName = None, earned = 63, maxXP = Num 63,
            base = Num 63, percentage = 100, isSuccess = True,
            rawText = ''Mathematical Foundations III Placement 0 / XP''\<rparr>]"
    by code_simp
  ultimately show ?thesis using acts by simp
qed

theorem diagnostic_pass_full_marks_witness:
  "map_option (map (\<lambda>a. (earned a, base a, percentage a, isSuccess a)))
     (diagnosticPass 0 0 ''Mon, Jan 5th, 2026'' placementZero) = Some [(63, Num 63, 100, True)]"
  using diagnostic_pass_full_marks [of 0 0 "''Mon, Jan 5th, 2026''" placementZero] by simp

end
